theory Spec2Isabelle
  imports Complex_Main "HOL-Library.AList"
begin

section \<open>Shared configuration (shared/config.js)\<close>

text \<open>
  JavaScript numbers are modelled as \<^typ>\<open>real\<close> (positions, velocities, times) and,
  where the program only ever stores whole numbers (sequence numbers, chunk coordinates,
  tick counters), as \<^typ>\<open>int\<close>.  Rounding of IEEE doubles is not modelled.
\<close>

definition chunkSize :: real where "chunkSize = 200"
definition terrainResolution :: nat where "terrainResolution = 32"
definition renderResolution :: nat where "renderResolution = 64"
definition serverChunkRadius :: int where "serverChunkRadius = 3"
definition world_gravity :: real where "world_gravity = - 30"

definition player_height :: real where "player_height = 17 / 10"

definition walkSpeed :: real where "walkSpeed = 5"
definition runSpeed :: real where "runSpeed = 10"
definition crouchSpeed :: real where "crouchSpeed = 5 / 2"
definition jumpForce :: real where "jumpForce = 10"
definition airControl :: real where "airControl = 3 / 10"
definition maxStamina :: real where "maxStamina = 100"
definition staminaDrainRate :: real where "staminaDrainRate = 15"
definition staminaRegenRate :: real where "staminaRegenRate = 20"

definition tickRate :: int where "tickRate = 30"
definition inputBufferSize :: nat where "inputBufferSize = 64"
definition snapshotBufferSize :: nat where "snapshotBufferSize = 32"
definition interpolationDelay :: real where "interpolationDelay = 100"

section \<open>Identifiers, vectors and JavaScript maps\<close>

type_synonym clientId = string

text \<open>
  Entity ids are the template strings \<open>player_${clientId}\<close>, \<open>vehicle_${...}\<close> and
  \<open>building_${chunkX}_${chunkZ}_${i}\<close>; the three families are kept apart by their prefix,
  which the constructors below stand for.
\<close>

datatype entityId =
    PlayerId clientId
  | VehicleId string
  | BuildingId int int nat

text \<open>A chunk key is the string \<open>${chunkX},${chunkZ}\<close> of two integers.\<close>

type_synonym chunkKey = "int \<times> int"

record vec3 =
  vx :: real
  vy :: real
  vz :: real

definition Vec3 :: "real \<Rightarrow> real \<Rightarrow> real \<Rightarrow> vec3" where
  "Vec3 a b c = \<lparr>vx = a, vy = b, vz = c\<rparr>"

text \<open>
  A JavaScript \<open>Map\<close> keeps its keys in insertion order: \<open>set\<close> on a present key
  replaces the value in place, on a new key it appends, \<open>delete\<close> removes the entry.
  These are \<^const>\<open>AList.update\<close> and \<^const>\<open>AList.delete\<close> on an association list.
\<close>

abbreviation Map_get :: "('k \<times> 'v) list \<Rightarrow> 'k \<Rightarrow> 'v option" where
  "Map_get m k \<equiv> map_of m k"

abbreviation Map_has :: "('k \<times> 'v) list \<Rightarrow> 'k \<Rightarrow> bool" where
  "Map_has m k \<equiv> map_of m k \<noteq> None"

abbreviation Map_set :: "'k \<Rightarrow> 'v \<Rightarrow> ('k \<times> 'v) list \<Rightarrow> ('k \<times> 'v) list" where
  "Map_set k v m \<equiv> AList.update k v m"

abbreviation Map_delete :: "'k \<Rightarrow> ('k \<times> 'v) list \<Rightarrow> ('k \<times> 'v) list" where
  "Map_delete k m \<equiv> AList.delete k m"

abbreviation Map_keys :: "('k \<times> 'v) list \<Rightarrow> 'k list" where
  "Map_keys m \<equiv> map fst m"

section \<open>The client's records (js/player-controller.js, js/network-client.js)\<close>

text \<open>
  The state of the \<open>PlayerController\<close> that prediction, reconciliation and the smoothing
  of remote players read and write (\<open>c_position\<close> and \<open>c_velocity\<close> are \<open>this.position\<close> and
  \<open>this.velocity\<close>), and the part of the \<open>NetworkClient\<close> that sequences
  input.  \<open>sm_from\<close>, \<open>sm_to\<close>, ... are the fields \<open>from\<close>, \<open>to\<close>, \<open>velocity\<close>, \<open>start\<close>
  and \<open>duration\<close> of a smoothing descriptor.
\<close>

record smoothing =
  sm_from :: vec3
  sm_to :: vec3
  sm_velocity :: vec3
  sm_start :: real
  sm_duration :: real

record remotePlayer =
  meshPosition :: vec3
  meshRotationY :: real
  smoothingOf :: "smoothing option"
  targetYaw :: "real option"

record controller =
  c_position :: vec3
  c_velocity :: vec3
  predictedPosition :: vec3
  predictedVelocity :: vec3
  yaw :: real
  isGrounded :: bool
  isRunning :: bool
  isCrouching :: bool
  stamina :: real
  health :: real
  inVehicle :: bool
  vehicleId :: "entityId option"
  otherPlayers :: "(entityId \<times> remotePlayer) list"

section \<open>Messages between client and server\<close>

record input =
  forward :: real
  right :: real
  jump :: bool
  run :: bool
  crouch :: bool
  yaw :: real
  seq :: int

text \<open>The state of a player as it is put into a snapshot.\<close>

record playerState =
  ps_entityId :: entityId
  ps_clientId :: clientId
  inVehicle :: bool
  ps_vehicleId :: "entityId option"
  ps_position :: "vec3 option"
  ps_velocity :: "vec3 option"
  ps_grounded :: "bool option"
  ps_yaw :: "real option"
  ps_health :: real
  ps_stamina :: real
  ps_lastInputSeq :: int

section \<open>NetworkClient: input sequencing (js/network-client.js)\<close>

text \<open>
  An entry of \<open>pendingInputs\<close> is \<open>{ ...input, timestamp }\<close>: the fields of the input
  itself (its \<open>seq\<close> among them) and the time of sending.  It has no property called
  \<open>input\<close>; reading \<open>inputData.input\<close> gives \<open>undefined\<close>.
\<close>

record pendingInput =
  sentInput :: input
  sentAt :: real

definition inputProperty :: "pendingInput \<Rightarrow> input option" where
  "inputProperty inputData = None"

record networkClient =
  connected :: bool
  inputSequence :: int
  lastAckedInputSeq :: int
  pendingInputs :: "pendingInput list"
  outgoing :: "input list"

text \<open>\<open>while (xs.length > n) xs.shift()\<close>\<close>

fun shiftWhileLonger :: "nat \<Rightarrow> 'a list \<Rightarrow> 'a list" where
  "shiftWhileLonger n [] = []"
| "shiftWhileLonger n (x # xs) =
     (if length (x # xs) > n then shiftWhileLonger n xs else x # xs)"

text \<open>
  \<open>sendPlayerInput\<close>: the input gets the next sequence number, is buffered and sent
  (\<open>outgoing\<close> collects what is handed to the socket).  The result is the sequence number,
  or nothing when the client is not connected.
\<close>

definition sendPlayerInput :: "real \<Rightarrow> input \<Rightarrow> networkClient \<Rightarrow> int option \<times> networkClient" where
  "sendPlayerInput now inp nc =
     (if \<not> connected nc then (None, nc)
      else (let k = inputSequence nc + 1;
                inp' = inp\<lparr>seq := k\<rparr>
            in (Some k,
                nc\<lparr>inputSequence := k,
                   pendingInputs := shiftWhileLonger inputBufferSize
                                      (pendingInputs nc @ [\<lparr>sentInput = inp', sentAt = now\<rparr>]),
                   outgoing := outgoing nc @ [inp']\<rparr>)))"

text \<open>The acknowledgment part of \<open>handleWorldSnapshot\<close>.\<close>

definition acknowledge :: "int \<Rightarrow> networkClient \<Rightarrow> networkClient" where
  "acknowledge yourLastInputSeq nc =
     nc\<lparr>lastAckedInputSeq := yourLastInputSeq,
        pendingInputs := filter (\<lambda>d. seq (sentInput d) > yourLastInputSeq) (pendingInputs nc)\<rparr>"

section \<open>PlayerController: prediction and reconciliation (js/player-controller.js)\<close>

datatype jsError = TypeError

text \<open>
  A call either returns the new state or throws; what was written before the throw stays
  written, so the error carries the state as well.
\<close>

type_synonym 'a outcome = "(jsError \<times> 'a) + 'a"




definition lerpVectors :: "vec3 \<Rightarrow> vec3 \<Rightarrow> real \<Rightarrow> vec3" where
  "lerpVectors v1 v2 alpha =
     Vec3 (vx v1 + (vx v2 - vx v1) * alpha) (vy v1 + (vy v2 - vy v1) * alpha)
          (vz v1 + (vz v2 - vz v1) * alpha)"


definition addScaledVector :: "vec3 \<Rightarrow> vec3 \<Rightarrow> real \<Rightarrow> vec3" where
  "addScaledVector this v k = Vec3 (vx this + vx v * k) (vy this + vy v * k) (vz this + vz v * k)"

definition mathLerp :: "real \<Rightarrow> real \<Rightarrow> real \<Rightarrow> real" where
  "mathLerp x y t = (1 - t) * x + t * y"

definition approach :: "real \<Rightarrow> real \<Rightarrow> real \<Rightarrow> real" where
  "approach current target rate =
     (if current < target then min (current + rate) target
      else if current > target then max (current - rate) target
      else target)"

text \<open>
  \<open>applyInput\<close>.  The terrain height of the renderer is a parameter.  An \<open>undefined\<close>
  input throws at the first read of a field, before anything is written.
\<close>

definition applyInput ::
  "(real \<Rightarrow> real \<Rightarrow> real) \<Rightarrow> input option \<Rightarrow> real \<Rightarrow> controller \<Rightarrow> controller outcome" where
  "applyInput heightAt inputArg deltaTime c =
     (case inputArg of
        None \<Rightarrow> Inl (TypeError, c)
      | Some inp \<Rightarrow>
          (let co = cos (controller.yaw c);
               si = sin (controller.yaw c);
               forwardX = - si; forwardZ = - co; rightX = co; rightZ = - si;
               moveX0 = forward inp * forwardX + right inp * rightX;
               moveZ0 = forward inp * forwardZ + right inp * rightZ;
               moveLen = sqrt (moveX0 * moveX0 + moveZ0 * moveZ0);
               moveX = (if moveLen > 1 then moveX0 / moveLen else moveX0);
               moveZ = (if moveLen > 1 then moveZ0 / moveLen else moveZ0);
               c1 = c\<lparr>isRunning := run inp \<and> stamina c > 0, isCrouching := crouch inp\<rparr>;
               targetSpeed = (if isCrouching c1 then crouchSpeed
                              else if isRunning c1 then runSpeed else walkSpeed);
               targetVelX = moveX * targetSpeed;
               targetVelZ = moveZ * targetSpeed;
               accel = (if isGrounded c1 then 20 else 20 * airControl);
               v1 = (predictedVelocity c1)
                      \<lparr>vx := approach (vx (predictedVelocity c1)) targetVelX (accel * deltaTime),
                       vz := approach (vz (predictedVelocity c1)) targetVelZ (accel * deltaTime)\<rparr>;
               v2 = (if \<not> isGrounded c1 then v1\<lparr>vy := vy v1 + world_gravity * deltaTime\<rparr> else v1);
               jumps = (jump inp \<and> isGrounded c1 \<and> \<not> isCrouching c1);
               v3 = (if jumps then v2\<lparr>vy := jumpForce\<rparr> else v2);
               c2 = c1\<lparr>isGrounded := (if jumps then False else isGrounded c1)\<rparr>;
               p1 = Vec3 (vx (predictedPosition c2) + vx v3 * deltaTime)
                         (vy (predictedPosition c2) + vy v3 * deltaTime)
                         (vz (predictedPosition c2) + vz v3 * deltaTime);
               groundHeight = heightAt (vx p1) (vz p1) + player_height / 2;
               landed = (vy p1 < groundHeight);
               p2 = (if landed then p1\<lparr>vy := groundHeight\<rparr> else p1);
               v4 = (if landed then v3\<lparr>vy := 0\<rparr> else v3);
               c3 = c2\<lparr>predictedPosition := p2, predictedVelocity := v4,
                       isGrounded := (if landed then True else isGrounded c2)\<rparr>
           in Inr (if isRunning c3 \<and> moveLen > 0
                   then c3\<lparr>stamina := max 0 (stamina c3 - staminaDrainRate * deltaTime)\<rparr>
                   else c3\<lparr>stamina := min maxStamina (stamina c3 + staminaRegenRate * deltaTime)\<rparr>)))"

text \<open>
  The replay loop of \<open>updateLocalPlayerFromServer\<close>: every pending entry whose sequence
  number exceeds the acknowledged one is passed on as \<open>applyInput(inputData.input, 1 / 60)\<close>.
\<close>

fun replayPending ::
  "(real \<Rightarrow> real \<Rightarrow> real) \<Rightarrow> int \<Rightarrow> pendingInput list \<Rightarrow> controller \<Rightarrow> controller outcome" where
  "replayPending heightAt ack [] c = Inr c"
| "replayPending heightAt ack (inputData # rest) c =
     (if seq (sentInput inputData) > ack
      then (case applyInput heightAt (inputProperty inputData) (1 / 60) c of
              Inl err \<Rightarrow> Inl err
            | Inr c' \<Rightarrow> replayPending heightAt ack rest c')
      else replayPending heightAt ack rest c)"


section \<open>PlayerController: smoothing of remote players (js/player-controller.js)\<close>

text \<open>
  \<open>(CONFIG.networkInterpolationDelay || 100) / 1000\<close>: the configuration has no such key
  at its top level, so the window is 100 ms, in seconds.
\<close>

definition remoteSmoothingWindow :: real where
  "remoteSmoothingWindow = 100 / 1000"


text \<open>One iteration of the loop of \<open>smoothRemotePlayers\<close>, and the loop.\<close>

definition smoothRemotePlayer :: "real \<Rightarrow> remotePlayer \<Rightarrow> remotePlayer" where
  "smoothRemotePlayer now player =
     (case smoothingOf player of
        None \<Rightarrow> player
      | Some sm \<Rightarrow>
          (let t = min 1 ((now - sm_start sm) / sm_duration sm);
               eased = t * t * (3 - 2 * t);
               blended = addScaledVector (sm_to sm) (sm_velocity sm)
                           (remoteSmoothingWindow * (1 - eased));
               player1 = player\<lparr>meshPosition := lerpVectors (sm_from sm) blended eased\<rparr>
           in case targetYaw player1 of
                None \<Rightarrow> player1
              | Some ty \<Rightarrow> player1\<lparr>meshRotationY := mathLerp (meshRotationY player1) ty (15 / 100)\<rparr>))"

definition smoothRemotePlayers :: "real \<Rightarrow> controller \<Rightarrow> controller" where
  "smoothRemotePlayers now c =
     c\<lparr>otherPlayers := map (\<lambda>(eid, player). (eid, smoothRemotePlayer now player)) (otherPlayers c)\<rparr>"





section \<open>The physics engine's world (the part of Rapier the wrapper relies on)\<close>

text \<open>
  The engine owns a set of rigid bodies and a set of colliders, both addressed by handles
  that it hands out at creation.  A collider is either attached to a parent body or free.
  Removing a body removes the colliders attached to it.
\<close>

type_synonym handle = nat

record rigidBody =
  translation :: vec3
  linvel :: vec3
  enabled :: bool

record rapierWorld =
  rigidBodySet :: "(handle \<times> rigidBody) list"
  colliderSet :: "(handle \<times> handle option) list"
  nextHandle :: handle

definition emptyRapierWorld :: rapierWorld where
  "emptyRapierWorld = \<lparr>rigidBodySet = [], colliderSet = [], nextHandle = 0\<rparr>"

definition createRigidBody :: "rigidBody \<Rightarrow> rapierWorld \<Rightarrow> handle \<times> rapierWorld" where
  "createRigidBody desc w =
     (nextHandle w,
      w\<lparr>rigidBodySet := rigidBodySet w @ [(nextHandle w, desc)],
        nextHandle := Suc (nextHandle w)\<rparr>)"

definition createCollider :: "handle option \<Rightarrow> rapierWorld \<Rightarrow> handle \<times> rapierWorld" where
  "createCollider parent w =
     (nextHandle w,
      w\<lparr>colliderSet := colliderSet w @ [(nextHandle w, parent)],
        nextHandle := Suc (nextHandle w)\<rparr>)"

definition removeRigidBody :: "handle \<Rightarrow> rapierWorld \<Rightarrow> rapierWorld" where
  "removeRigidBody h w =
     w\<lparr>rigidBodySet := Map_delete h (rigidBodySet w),
       colliderSet := filter (\<lambda>(c, parent). parent \<noteq> Some h) (colliderSet w)\<rparr>"

definition removeCollider :: "handle \<Rightarrow> rapierWorld \<Rightarrow> rapierWorld" where
  "removeCollider c w = w\<lparr>colliderSet := Map_delete c (colliderSet w)\<rparr>"

definition modifyBody :: "handle \<Rightarrow> (rigidBody \<Rightarrow> rigidBody) \<Rightarrow> rapierWorld \<Rightarrow> rapierWorld" where
  "modifyBody h f w =
     (case Map_get (rigidBodySet w) h of
        None \<Rightarrow> w
      | Some b \<Rightarrow> w\<lparr>rigidBodySet := Map_set h (f b) (rigidBodySet w)\<rparr>)"

section \<open>PhysicsWorld (server/physics-world.js)\<close>

datatype entityData =
    PlayerData (ownerId: clientId) (grounded: bool) (groundNormal: vec3)
  | VehicleData (vehicleType: string) (driverId: "clientId option") (wheelStates: "nat option")
  | BuildingData vec3 vec3

record physicsWorld =
  world :: rapierWorld
  initialized :: bool
  bodies :: "(entityId \<times> handle) list"
  colliders :: "(entityId \<times> handle list) list"
  entityData :: "(entityId \<times> entityData) list"
  terrainChunks :: "(chunkKey \<times> handle) list"

definition newPhysicsWorld :: physicsWorld where
  "newPhysicsWorld =
     \<lparr>world = emptyRapierWorld, initialized = True, bodies = [], colliders = [],
      entityData = [], terrainChunks = []\<rparr>"

text \<open>\<open>this.bodies.get(entityId)\<close> followed by a read of the body it refers to.\<close>

definition bodyOf :: "physicsWorld \<Rightarrow> entityId \<Rightarrow> rigidBody option" where
  "bodyOf pw eid =
     (case Map_get (bodies pw) eid of
        None \<Rightarrow> None
      | Some h \<Rightarrow> Map_get (rigidBodySet (world pw)) h)"

definition createPlayerBody :: "entityId \<Rightarrow> vec3 \<Rightarrow> clientId \<Rightarrow> physicsWorld \<Rightarrow> physicsWorld" where
  "createPlayerBody eid position owner pw =
     (let bodyDesc = \<lparr>translation = Vec3 (vx position) (vy position + player_height / 2) (vz position),
                      linvel = Vec3 0 0 0, enabled = True\<rparr>;
          (body, w1) = createRigidBody bodyDesc (world pw);
          (collider, w2) = createCollider (Some body) w1
      in pw\<lparr>world := w2,
            bodies := Map_set eid body (bodies pw),
            colliders := Map_set eid [collider] (colliders pw),
            entityData := Map_set eid (PlayerData owner False (Vec3 0 1 0)) (entityData pw)\<rparr>)"

text \<open>
  \<open>CONFIG.physics.vehicle[vehicleType]\<close>: the height added to the spawn position for each
  known vehicle type, \<open>None\<close> for a type that has no configuration.
\<close>

definition vehicleBodyLift :: "string \<Rightarrow> real option" where
  "vehicleBodyLift t =
     (if t = ''helicopter'' then Some 2
      else if t = ''tank'' then Some (3 / 2)
      else if t = ''hovercraft'' then Some (1 / 2 + 1 / 2)
      else if t = ''car'' then Some (4 / 10 + 3 / 10 + 8 / 10 / 2)
      else if t = ''truck'' then Some (6 / 10 + 4 / 10 + 12 / 10 / 2)
      else if t = ''motorcycle'' then Some (35 / 100 + 2 / 10 + 6 / 10 / 2)
      else None)"

definition initWheelStates :: "string \<Rightarrow> nat" where
  "initWheelStates t = (if t = ''motorcycle'' then 2 else 4)"

definition createVehicleBody ::
  "entityId \<Rightarrow> string \<Rightarrow> vec3 \<Rightarrow> physicsWorld \<Rightarrow> handle option \<times> physicsWorld" where
  "createVehicleBody eid vtype position pw =
     (case vehicleBodyLift vtype of
        None \<Rightarrow> (None, pw)
      | Some lift \<Rightarrow>
          (let bodyDesc = \<lparr>translation = Vec3 (vx position) (vy position + lift) (vz position),
                           linvel = Vec3 0 0 0, enabled = True\<rparr>;
               (body, w1) = createRigidBody bodyDesc (world pw);
               (collider, w2) = createCollider (Some body) w1
           in (Some body,
               pw\<lparr>world := w2,
                  bodies := Map_set eid body (bodies pw),
                  colliders := Map_set eid [collider] (colliders pw),
                  entityData := Map_set eid
                    (VehicleData vtype None
                       (if vtype \<noteq> ''helicopter'' \<and> vtype \<noteq> ''tank'' \<and> vtype \<noteq> ''hovercraft''
                        then Some (initWheelStates vtype) else None))
                    (entityData pw)\<rparr>)))"

definition createTerrainChunk :: "chunkKey \<Rightarrow> physicsWorld \<Rightarrow> physicsWorld" where
  "createTerrainChunk key pw =
     (if Map_has (terrainChunks pw) key then pw
      else (let (collider, w1) = createCollider None (world pw)
            in pw\<lparr>world := w1, terrainChunks := Map_set key collider (terrainChunks pw)\<rparr>))"

definition removeTerrainChunk :: "chunkKey \<Rightarrow> physicsWorld \<Rightarrow> physicsWorld" where
  "removeTerrainChunk key pw =
     (case Map_get (terrainChunks pw) key of
        None \<Rightarrow> pw
      | Some collider \<Rightarrow>
          pw\<lparr>world := removeCollider collider (world pw),
             terrainChunks := Map_delete key (terrainChunks pw)\<rparr>)"

definition createBuildingCollider :: "entityId \<Rightarrow> vec3 \<Rightarrow> vec3 \<Rightarrow> physicsWorld \<Rightarrow> physicsWorld" where
  "createBuildingCollider eid position sz pw =
     (let (collider, w1) = createCollider None (world pw)
      in pw\<lparr>world := w1,
            colliders := Map_set eid [collider] (colliders pw),
            entityData := Map_set eid (BuildingData position sz) (entityData pw)\<rparr>)"

definition removeEntity :: "entityId \<Rightarrow> physicsWorld \<Rightarrow> physicsWorld" where
  "removeEntity eid pw =
     (let body = Map_get (bodies pw) eid;
          pw1 = (case body of
                   None \<Rightarrow> pw
                 | Some h \<Rightarrow> pw\<lparr>world := removeRigidBody h (world pw),
                                bodies := Map_delete eid (bodies pw)\<rparr>);
          pw2 = (case Map_get (colliders pw1) eid of
                   None \<Rightarrow> pw1
                 | Some cs \<Rightarrow>
                     pw1\<lparr>world := (if body = None then fold removeCollider cs (world pw1)
                                    else world pw1),
                         colliders := Map_delete eid (colliders pw1)\<rparr>)
      in pw2\<lparr>entityData := Map_delete eid (entityData pw2)\<rparr>)"

definition setVelocity :: "entityId \<Rightarrow> vec3 \<Rightarrow> physicsWorld \<Rightarrow> physicsWorld" where
  "setVelocity eid v pw =
     (case Map_get (bodies pw) eid of
        None \<Rightarrow> pw
      | Some h \<Rightarrow> pw\<lparr>world := modifyBody h (\<lambda>b. b\<lparr>linvel := v\<rparr>) (world pw)\<rparr>)"

definition setPosition :: "entityId \<Rightarrow> vec3 \<Rightarrow> physicsWorld \<Rightarrow> physicsWorld" where
  "setPosition eid p pw =
     (case Map_get (bodies pw) eid of
        None \<Rightarrow> pw
      | Some h \<Rightarrow> pw\<lparr>world := modifyBody h (\<lambda>b. b\<lparr>translation := p\<rparr>) (world pw)\<rparr>)"

definition setEnabled :: "entityId \<Rightarrow> bool \<Rightarrow> physicsWorld \<Rightarrow> physicsWorld" where
  "setEnabled eid e pw =
     (case Map_get (bodies pw) eid of
        None \<Rightarrow> pw
      | Some h \<Rightarrow> pw\<lparr>world := modifyBody h (\<lambda>b. b\<lparr>enabled := e\<rparr>) (world pw)\<rparr>)"

text \<open>
  The engine's ray cast is a parameter: given the world, the ray's origin and its maximal
  length it answers with the distance of the first hit and, when known, the surface normal.
\<close>

type_synonym raycaster = "rapierWorld \<Rightarrow> vec3 \<Rightarrow> real \<Rightarrow> (real \<times> vec3 option) option"

definition updatePlayerGrounded :: "raycaster \<Rightarrow> entityId \<Rightarrow> physicsWorld \<Rightarrow> physicsWorld" where
  "updatePlayerGrounded castRay eid pw =
     (case (bodyOf pw eid, Map_get (entityData pw) eid) of
        (Some body, Some (PlayerData owner g n)) \<Rightarrow>
          (let pos = translation body;
               rayLength = player_height / 2 + 2 / 10;
               result = castRay (world pw) pos rayLength;
               g' = (case result of None \<Rightarrow> False
                     | Some (distance, _) \<Rightarrow> distance < player_height / 2 + 1 / 10);
               n' = (case result of Some (_, Some normal) \<Rightarrow> normal | _ \<Rightarrow> n)
           in pw\<lparr>entityData := Map_set eid (PlayerData owner g' n') (entityData pw)\<rparr>)
      | _ \<Rightarrow> pw)"


section \<open>TerrainPhysicsManager (server/terrain-physics.js)\<close>

text \<open>
  The noise functions of \<open>shared/terrain-noise.js\<close> are consumed as pure functions of the
  world coordinates (the seed is fixed).  Height maps are generated from them and handed
  to the engine; their contents play no part below and are left out of the chunk data.
\<close>

record terrainNoise =
  getTerrainHeight :: "real \<Rightarrow> real \<Rightarrow> real"
  getCityInfluence :: "real \<Rightarrow> real \<Rightarrow> real"
  getCityBuildings :: "int \<Rightarrow> int \<Rightarrow> (vec3 \<times> vec3) list"

record terrainManager =
  loadedChunks :: "(chunkKey \<times> entityId list) list"
  buildings :: "(chunkKey \<times> entityId list) list"
  loadQueue :: "chunkKey list"
  unloadQueue :: "chunkKey list"

definition newTerrainManager :: terrainManager where
  "newTerrainManager = \<lparr>loadedChunks = [], buildings = [], loadQueue = [], unloadQueue = []\<rparr>"

definition maxChunksPerFrame :: nat where "maxChunksPerFrame = 2"

type_synonym terrainState = "terrainManager \<times> physicsWorld"

fun createBuildings ::
  "int \<Rightarrow> int \<Rightarrow> nat \<Rightarrow> (vec3 \<times> vec3) list \<Rightarrow> physicsWorld \<Rightarrow> entityId list \<times> physicsWorld" where
  "createBuildings cx cz i [] pw = ([], pw)"
| "createBuildings cx cz i ((position, sz) # bs) pw =
     (let (ids, pw') = createBuildings cx cz (Suc i) bs
                         (createBuildingCollider (BuildingId cx cz i) position sz pw)
      in (BuildingId cx cz i # ids, pw'))"

definition loadChunk :: "terrainNoise \<Rightarrow> chunkKey \<Rightarrow> terrainState \<Rightarrow> terrainState" where
  "loadChunk tn key s =
     (let (tm, pw) = s in
      if Map_has (loadedChunks tm) key then s
      else (let pw1 = createTerrainChunk key pw;
                (buildingIds, pw2) =
                   createBuildings (fst key) (snd key) 0 (getCityBuildings tn (fst key) (snd key)) pw1
            in (tm\<lparr>loadedChunks := Map_set key buildingIds (loadedChunks tm),
                   buildings := Map_set key buildingIds (buildings tm)\<rparr>, pw2)))"

definition unloadChunk :: "chunkKey \<Rightarrow> terrainState \<Rightarrow> terrainState" where
  "unloadChunk key s =
     (let (tm, pw) = s in
      case Map_get (loadedChunks tm) key of
        None \<Rightarrow> s
      | Some chunkData \<Rightarrow>
          (let pw1 = removeTerrainChunk key pw;
               buildingIds = (case Map_get (buildings tm) key of None \<Rightarrow> [] | Some ids \<Rightarrow> ids);
               pw2 = fold removeEntity buildingIds pw1
           in (tm\<lparr>loadedChunks := Map_delete key (loadedChunks tm),
                  buildings := Map_delete key (buildings tm)\<rparr>, pw2)))"

text \<open>
  The two drain loops: \<open>while (queue.length > 0 && n < maxChunksPerFrame)\<close>, with the
  queue as the argument of the recursion.  An entry that needs no work is dropped without
  counting against the bound.
\<close>

fun drainLoadQueue ::
  "terrainNoise \<Rightarrow> nat \<Rightarrow> chunkKey list \<Rightarrow> terrainState \<Rightarrow> chunkKey list \<times> terrainState" where
  "drainLoadQueue tn loaded [] s = ([], s)"
| "drainLoadQueue tn loaded (key # queue) s =
     (if loaded < maxChunksPerFrame
      then (if \<not> Map_has (loadedChunks (fst s)) key
            then drainLoadQueue tn (Suc loaded) queue (loadChunk tn key s)
            else drainLoadQueue tn loaded queue s)
      else (key # queue, s))"

fun drainUnloadQueue ::
  "nat \<Rightarrow> chunkKey list \<Rightarrow> terrainState \<Rightarrow> chunkKey list \<times> terrainState" where
  "drainUnloadQueue unloaded [] s = ([], s)"
| "drainUnloadQueue unloaded (key # queue) s =
     (if unloaded < maxChunksPerFrame
      then (if Map_has (loadedChunks (fst s)) key
            then drainUnloadQueue (Suc unloaded) queue (unloadChunk key s)
            else drainUnloadQueue unloaded queue s)
      else (key # queue, s))"

definition processLoadQueue :: "terrainNoise \<Rightarrow> terrainState \<Rightarrow> terrainState" where
  "processLoadQueue tn s =
     (let (queue, (tm, pw)) = drainLoadQueue tn 0 (loadQueue (fst s)) s
      in (tm\<lparr>loadQueue := queue\<rparr>, pw))"

definition processUnloadQueue :: "terrainState \<Rightarrow> terrainState" where
  "processUnloadQueue s =
     (let (queue, (tm, pw)) = drainUnloadQueue 0 (unloadQueue (fst s)) s
      in (tm\<lparr>unloadQueue := queue\<rparr>, pw))"

text \<open>A JavaScript \<open>Set\<close> in insertion order.\<close>

definition Set_add :: "'a \<Rightarrow> 'a list \<Rightarrow> 'a list" where
  "Set_add k s = (if k \<in> set s then s else s @ [k])"

definition chunkOf :: "real \<Rightarrow> int" where
  "chunkOf c = \<lfloor>c / chunkSize\<rfloor>"

definition neighborhood :: "int \<Rightarrow> chunkKey \<Rightarrow> chunkKey list" where
  "neighborhood r center =
     concat (map (\<lambda>dx. map (\<lambda>dz. (fst center + dx, snd center + dz)) [- r..r]) [- r..r])"

definition requiredChunks :: "(entityId \<times> real \<times> real) list \<Rightarrow> chunkKey list" where
  "requiredChunks playerPositions =
     fold (\<lambda>(eid, px, pz) required.
             fold Set_add (neighborhood serverChunkRadius (chunkOf px, chunkOf pz)) required)
          playerPositions []"

definition queueLoads :: "chunkKey list \<Rightarrow> terrainManager \<Rightarrow> terrainManager" where
  "queueLoads required tm =
     fold (\<lambda>key t. if \<not> Map_has (loadedChunks t) key \<and> key \<notin> set (loadQueue t)
                    then t\<lparr>loadQueue := loadQueue t @ [key]\<rparr> else t) required tm"

definition queueUnload :: "chunkKey list \<Rightarrow> chunkKey \<Rightarrow> terrainManager \<Rightarrow> terrainManager" where
  "queueUnload required key t =
     (if key \<notin> set required \<and> key \<notin> set (unloadQueue t)
      then t\<lparr>unloadQueue := unloadQueue t @ [key]\<rparr> else t)"

definition queueUnloads :: "chunkKey list \<Rightarrow> terrainManager \<Rightarrow> terrainManager" where
  "queueUnloads required tm = fold (queueUnload required) (Map_keys (loadedChunks tm)) tm"

definition updateForPlayers ::
  "terrainNoise \<Rightarrow> (entityId \<times> real \<times> real) list \<Rightarrow> terrainState \<Rightarrow> terrainState" where
  "updateForPlayers tn playerPositions s =
     (let required = requiredChunks playerPositions;
          (tm, pw) = s;
          tm1 = queueLoads required tm;
          tm2 = queueUnloads required tm1
      in processUnloadQueue (processLoadQueue tn (tm2, pw)))"

definition forceLoadAroundPosition ::
  "terrainNoise \<Rightarrow> real \<Rightarrow> real \<Rightarrow> int \<Rightarrow> terrainState \<Rightarrow> terrainState" where
  "forceLoadAroundPosition tn px pz radius s =
     fold (loadChunk tn) (neighborhood radius (chunkOf px, chunkOf pz)) s"

definition getHeightAt :: "terrainNoise \<Rightarrow> real \<Rightarrow> real \<Rightarrow> real" where
  "getHeightAt tn px pz = getTerrainHeight tn px pz"









section \<open>PlayerPhysicsManager (server/player-physics.js)\<close>

record player =
  entityId :: entityId
  clientId :: clientId
  username :: string
  health :: real
  stamina :: real
  isRunning :: bool
  isCrouching :: bool
  yaw :: real
  vehicleId :: "entityId option"
  lastInputSeq :: int

record historyEntry =
  h_seq :: int
  h_input :: input
  timestamp :: real

record playerManager =
  players :: "(entityId \<times> player) list"
  playerInputs :: "(entityId \<times> input) list"
  inputHistory :: "(entityId \<times> historyEntry list) list"

definition newPlayerManager :: playerManager where
  "newPlayerManager = \<lparr>players = [], playerInputs = [], inputHistory = []\<rparr>"

definition idleInput :: input where
  "idleInput = \<lparr>forward = 0, right = 0, jump = False, run = False, crouch = False,
                 yaw = 0, seq = 0\<rparr>"

definition spawnPlayer ::
  "terrainNoise \<Rightarrow> clientId \<Rightarrow> vec3 \<Rightarrow> string \<Rightarrow> playerManager \<times> terrainState
     \<Rightarrow> vec3 \<times> playerManager \<times> terrainState" where
  "spawnPlayer tn cid position uname s =
     (let (pm, ts) = s;
          eid = PlayerId cid;
          (tm1, pw1) = forceLoadAroundPosition tn (vx position) (vz position) 1 ts;
          groundHeight = getHeightAt tn (vx position) (vz position);
          position' = position\<lparr>vy := max (vy position) (groundHeight + player_height / 2 + 1 / 10)\<rparr>;
          pw2 = createPlayerBody eid position' cid pw1;
          pm' = pm\<lparr>players := Map_set eid
                        \<lparr>entityId = eid, clientId = cid, username = uname, health = 100,
                         stamina = maxStamina, isRunning = False, isCrouching = False,
                         yaw = 0, vehicleId = None, lastInputSeq = 0\<rparr> (players pm),
                     playerInputs := Map_set eid idleInput (playerInputs pm),
                     inputHistory := Map_set eid [] (inputHistory pm)\<rparr>
      in (position', pm', (tm1, pw2)))"

definition removePlayer :: "clientId \<Rightarrow> playerManager \<times> physicsWorld \<Rightarrow> playerManager \<times> physicsWorld" where
  "removePlayer cid s =
     (let (pm, pw) = s; eid = PlayerId cid in
      if Map_has (players pm) eid
      then (pm\<lparr>players := Map_delete eid (players pm),
               playerInputs := Map_delete eid (playerInputs pm),
               inputHistory := Map_delete eid (inputHistory pm)\<rparr>,
            removeEntity eid pw)
      else s)"

text \<open>\<open>setPlayerInput\<close>; the time of receipt (\<open>Date.now()\<close>) is the first argument.\<close>

definition setPlayerInput :: "real \<Rightarrow> clientId \<Rightarrow> input \<Rightarrow> playerManager \<Rightarrow> playerManager" where
  "setPlayerInput now cid inp pm =
     (let eid = PlayerId cid in
      case Map_get (players pm) eid of
        None \<Rightarrow> pm
      | Some p \<Rightarrow>
          if vehicleId p \<noteq> None then pm
          else (let pm1 = pm\<lparr>playerInputs := Map_set eid inp (playerInputs pm),
                            players := Map_set eid (p\<lparr>yaw := input.yaw inp\<rparr>) (players pm)\<rparr>
                in case Map_get (inputHistory pm1) eid of
                     None \<Rightarrow> pm1
                   | Some history \<Rightarrow>
                       pm1\<lparr>inputHistory := Map_set eid
                             (shiftWhileLonger inputBufferSize
                                (history @ [\<lparr>h_seq = seq inp, h_input = inp, timestamp = now\<rparr>]))
                             (inputHistory pm1)\<rparr>))"

text \<open>
  \<open>entityData.grounded\<close> as a condition: the flag of a player's entity data, falsy where
  the entity data has no such field.
\<close>

definition groundedFlag :: "physicsWorld \<Rightarrow> entityId \<Rightarrow> bool" where
  "groundedFlag pw eid =
     (case Map_get (entityData pw) eid of Some (PlayerData _ g _) \<Rightarrow> g | _ \<Rightarrow> False)"

definition updatePlayerMovement ::
  "terrainNoise \<Rightarrow> raycaster \<Rightarrow> entityId \<Rightarrow> player \<Rightarrow> input \<Rightarrow> real \<Rightarrow> physicsWorld
     \<Rightarrow> player \<times> physicsWorld" where
  "updatePlayerMovement tn castRay eid p inp deltaTime pw =
     (case (bodyOf pw eid, Map_get (entityData pw) eid) of
        (Some body, Some anyData) \<Rightarrow>
          (let pw1 = updatePlayerGrounded castRay eid pw;
               isGrounded = groundedFlag pw1 eid;
               pos = translation body;
               vel = linvel body;
               c = cos (player.yaw p);
               s = sin (player.yaw p);
               forwardX = - s; forwardZ = - c; rightX = c; rightZ = - s;
               moveX0 = forward inp * forwardX + right inp * rightX;
               moveZ0 = forward inp * forwardZ + right inp * rightZ;
               moveLen = sqrt (moveX0 * moveX0 + moveZ0 * moveZ0);
               moveX = (if moveLen > 1 then moveX0 / moveLen else moveX0);
               moveZ = (if moveLen > 1 then moveZ0 / moveLen else moveZ0);
               p1 = p\<lparr>isRunning := run inp \<and> stamina p > 0, isCrouching := crouch inp\<rparr>;
               targetSpeed = (if isCrouching p1 then crouchSpeed
                              else if isRunning p1 then runSpeed else walkSpeed);
               targetVelX = moveX * targetSpeed;
               targetVelZ = moveZ * targetSpeed;
               accel = (if isGrounded then 20 else 20 * airControl);
               newVelX = approach (vx vel) targetVelX (accel * deltaTime);
               newVelZ = approach (vz vel) targetVelZ (accel * deltaTime);
               newVelY = (if jump inp \<and> isGrounded \<and> \<not> isCrouching p1 then jumpForce else vy vel);
               pw2 = setVelocity eid (Vec3 newVelX newVelY newVelZ) pw1;
               p2 = (if isRunning p1 \<and> moveLen > 0
                     then p1\<lparr>stamina := max 0 (stamina p1 - staminaDrainRate * deltaTime)\<rparr>
                     else if \<not> isRunning p1
                     then p1\<lparr>stamina := min maxStamina (stamina p1 + staminaRegenRate * deltaTime)\<rparr>
                     else p1);
               p3 = p2\<lparr>lastInputSeq := seq inp\<rparr>;
               groundHeight = getHeightAt tn (vx pos) (vz pos);
               minY = groundHeight + player_height / 2;
               pw3 = (if vy pos < minY - 1
                      then setVelocity eid (Vec3 newVelX 0 newVelZ)
                             (setPosition eid (Vec3 (vx pos) minY (vz pos)) pw2)
                      else pw2)
           in (p3, pw3))
      | _ \<Rightarrow> (p, pw))"

text \<open>
  One iteration of the loop of \<open>update\<close> over \<open>this.players\<close>, and the loop itself over
  the keys in insertion order.
\<close>

definition updatePlayer ::
  "terrainNoise \<Rightarrow> raycaster \<Rightarrow> real \<Rightarrow> entityId \<Rightarrow> playerManager \<times> physicsWorld
     \<Rightarrow> playerManager \<times> physicsWorld" where
  "updatePlayer tn castRay deltaTime eid s =
     (let (pm, pw) = s in
      case Map_get (players pm) eid of
        None \<Rightarrow> s
      | Some p \<Rightarrow>
          if vehicleId p \<noteq> None then s
          else (case Map_get (playerInputs pm) eid of
                  None \<Rightarrow> s
                | Some inp \<Rightarrow>
                    (let (p', pw') = updatePlayerMovement tn castRay eid p inp deltaTime pw
                     in (pm\<lparr>players := Map_set eid p' (players pm)\<rparr>, pw'))))"

definition update ::
  "terrainNoise \<Rightarrow> raycaster \<Rightarrow> real \<Rightarrow> playerManager \<times> physicsWorld
     \<Rightarrow> playerManager \<times> physicsWorld" where
  "update tn castRay deltaTime s =
     fold (updatePlayer tn castRay deltaTime) (Map_keys (players (fst s))) s"

definition playerEnterVehicle ::
  "clientId \<Rightarrow> entityId \<Rightarrow> playerManager \<times> physicsWorld \<Rightarrow> bool \<times> playerManager \<times> physicsWorld" where
  "playerEnterVehicle cid vid s =
     (let (pm, pw) = s; eid = PlayerId cid in
      case Map_get (players pm) eid of
        None \<Rightarrow> (False, s)
      | Some p \<Rightarrow>
          (True, pm\<lparr>players := Map_set eid (p\<lparr>vehicleId := Some vid\<rparr>) (players pm)\<rparr>,
           setEnabled eid False pw))"

definition playerExitVehicle ::
  "terrainNoise \<Rightarrow> clientId \<Rightarrow> vec3 \<Rightarrow> playerManager \<times> physicsWorld
     \<Rightarrow> bool \<times> vec3 \<times> playerManager \<times> physicsWorld" where
  "playerExitVehicle tn cid exitPosition s =
     (let (pm, pw) = s; eid = PlayerId cid in
      case Map_get (players pm) eid of
        None \<Rightarrow> (False, exitPosition, s)
      | Some p \<Rightarrow>
          if vehicleId p = None then (False, exitPosition, s)
          else (let pm' = pm\<lparr>players := Map_set eid (p\<lparr>vehicleId := None\<rparr>) (players pm)\<rparr> in
                case Map_get (bodies pw) eid of
                  None \<Rightarrow> (True, exitPosition, pm', pw)
                | Some h \<Rightarrow>
                    (let groundHeight = getHeightAt tn (vx exitPosition) (vz exitPosition);
                         exitPosition' = exitPosition\<lparr>vy :=
                           max (vy exitPosition) (groundHeight + player_height / 2 + 1 / 10)\<rparr>
                     in (True, exitPosition', pm',
                         setVelocity eid (Vec3 0 0 0)
                           (setPosition eid exitPosition' (setEnabled eid True pw))))))"

definition getPlayerState :: "clientId \<Rightarrow> playerManager \<Rightarrow> physicsWorld \<Rightarrow> playerState option" where
  "getPlayerState cid pm pw =
     (let eid = PlayerId cid in
      case Map_get (players pm) eid of
        None \<Rightarrow> None
      | Some p \<Rightarrow>
          if vehicleId p \<noteq> None
          then Some \<lparr>ps_entityId = eid, ps_clientId = clientId p, inVehicle = True,
                     ps_vehicleId = vehicleId p, ps_position = None, ps_velocity = None,
                     ps_grounded = None, ps_yaw = None, ps_health = health p, ps_stamina = stamina p,
                     ps_lastInputSeq = lastInputSeq p\<rparr>
          else (case (bodyOf pw eid, Map_get (entityData pw) eid) of
                  (Some body, Some d) \<Rightarrow>
                    Some \<lparr>ps_entityId = eid, ps_clientId = clientId p, inVehicle = False,
                          ps_vehicleId = None, ps_position = Some (translation body),
                          ps_velocity = Some (linvel body),
                          ps_grounded = (case d of PlayerData _ g _ \<Rightarrow> Some g | _ \<Rightarrow> None),
                          ps_yaw = Some (player.yaw p),
                          ps_health = health p, ps_stamina = stamina p,
                          ps_lastInputSeq = lastInputSeq p\<rparr>
                | _ \<Rightarrow> None))"



section \<open>VehiclePhysicsManager (server/vehicle-physics.js)\<close>

record vehicle =
  entityId :: entityId
  vehicleType :: string
  driverId :: "clientId option"
  engineRunning :: bool
  health :: real
  fuel :: real
  wheelStates :: "nat option"

record vehicleInput =
  throttle :: real
  brake :: real
  steering :: real
  handbrake :: bool
  collective :: real
  pitch :: real
  roll :: real
  yaw :: real

record vehicleManager =
  vehicles :: "(entityId \<times> vehicle) list"
  vehicleInputs :: "(entityId \<times> vehicleInput) list"

definition newVehicleManager :: vehicleManager where
  "newVehicleManager = \<lparr>vehicles = [], vehicleInputs = []\<rparr>"

type_synonym vehicleWorld = "vehicleManager \<times> physicsWorld"

definition restInput :: "bool \<Rightarrow> vehicleInput" where
  "restInput hb = \<lparr>throttle = 0, brake = 0, steering = 0, handbrake = hb, collective = 0,
                    pitch = 0, roll = 0, yaw = 0\<rparr>"

text \<open>\<open>spawnVehicle\<close>; the fresh id (\<open>Date.now()\<close> and a random suffix) is an argument.\<close>

definition spawnVehicle :: "entityId \<Rightarrow> string \<Rightarrow> vec3 \<Rightarrow> vehicleWorld \<Rightarrow> entityId option \<times> vehicleWorld" where
  "spawnVehicle eid vtype position s =
     (let (vm, pw) = s;
          (body, pw1) = createVehicleBody eid vtype position pw
      in case body of
           None \<Rightarrow> (None, vm, pw1)
         | Some b \<Rightarrow>
             (Some eid,
              vm\<lparr>vehicles := Map_set eid
                     \<lparr>entityId = eid, vehicleType = vtype, driverId = None,
                      engineRunning = False, health = 100, fuel = 100,
                      wheelStates = (case Map_get (entityData pw1) eid of
                                       Some (VehicleData _ _ w) \<Rightarrow> w | _ \<Rightarrow> None)\<rparr>
                     (vehicles vm),
                  vehicleInputs := Map_set eid (restInput False) (vehicleInputs vm)\<rparr>,
              pw1))"

text \<open>\<open>entityData.driverId = ...\<close> on the vehicle's entity data, when there is one.\<close>

definition setEntityDriver :: "entityId \<Rightarrow> clientId option \<Rightarrow> physicsWorld \<Rightarrow> physicsWorld" where
  "setEntityDriver eid d pw =
     (case Map_get (entityData pw) eid of
        Some (VehicleData t _ w) \<Rightarrow> pw\<lparr>entityData := Map_set eid (VehicleData t d w) (entityData pw)\<rparr>
      | _ \<Rightarrow> pw)"

definition enterVehicle :: "entityId \<Rightarrow> clientId \<Rightarrow> vehicleWorld \<Rightarrow> bool \<times> vehicleWorld" where
  "enterVehicle eid playerId s =
     (let (vm, pw) = s in
      case Map_get (vehicles vm) eid of
        None \<Rightarrow> (False, s)
      | Some v \<Rightarrow>
          if driverId v \<noteq> None then (False, s)
          else (True,
                vm\<lparr>vehicles := Map_set eid (v\<lparr>driverId := Some playerId, engineRunning := True\<rparr>)
                                 (vehicles vm)\<rparr>,
                setEntityDriver eid (Some playerId) pw))"

definition exitVehicle :: "entityId \<Rightarrow> clientId \<Rightarrow> vehicleWorld \<Rightarrow> bool \<times> vehicleWorld" where
  "exitVehicle eid playerId s =
     (let (vm, pw) = s in
      case Map_get (vehicles vm) eid of
        None \<Rightarrow> (False, s)
      | Some v \<Rightarrow>
          if driverId v \<noteq> Some playerId then (False, s)
          else (True,
                vm\<lparr>vehicles := Map_set eid (v\<lparr>driverId := None, engineRunning := False\<rparr>)
                                 (vehicles vm),
                   vehicleInputs := Map_set eid (restInput True) (vehicleInputs vm)\<rparr>,
                setEntityDriver eid None pw))"

text \<open>\<open>getEntityState\<close> of the physics world: present when body and entity data are.\<close>

definition getEntityState :: "physicsWorld \<Rightarrow> entityId \<Rightarrow> (rigidBody \<times> entityData) option" where
  "getEntityState pw eid =
     (case (bodyOf pw eid, Map_get (entityData pw) eid) of
        (Some body, Some d) \<Rightarrow> Some (body, d)
      | _ \<Rightarrow> None)"

record nearestVehicle =
  n_entityId :: entityId
  n_vehicleType :: string
  distance :: real
  occupied :: bool

definition nearerVehicle ::
  "physicsWorld \<Rightarrow> vec3 \<Rightarrow> entityId \<times> vehicle \<Rightarrow> nearestVehicle option \<times> real
     \<Rightarrow> nearestVehicle option \<times> real" where
  "nearerVehicle pw position entry acc =
     (let (eid, v) = entry; (nearest, nearestDist) = acc in
      case getEntityState pw eid of
        None \<Rightarrow> acc
      | Some (body, d) \<Rightarrow>
          (let dx = vx (translation body) - vx position;
               dy = vy (translation body) - vy position;
               dz = vz (translation body) - vz position;
               dist = sqrt (dx * dx + dy * dy + dz * dz)
           in if dist < nearestDist
              then (Some \<lparr>n_entityId = eid, n_vehicleType = vehicleType v, distance = dist,
                           occupied = (driverId v \<noteq> None)\<rparr>, dist)
              else acc))"

definition findNearestVehicle :: "vehicleWorld \<Rightarrow> vec3 \<Rightarrow> real \<Rightarrow> nearestVehicle option" where
  "findNearestVehicle s position maxDistance =
     fst (fold (nearerVehicle (snd s) position) (vehicles (fst s)) (None, maxDistance))"

definition getVehicleByDriver :: "vehicleManager \<Rightarrow> clientId \<Rightarrow> entityId option" where
  "getVehicleByDriver vm playerId =
     map_option fst (List.find (\<lambda>(eid, v). driverId v = Some playerId) (vehicles vm))"

record vehicleState =
  vs_entityId :: entityId
  vs_position :: vec3
  vs_velocity :: vec3
  vs_vehicleType :: string
  vs_driverId :: "clientId option"
  vs_engineRunning :: bool



section \<open>PhysicsServer (the server's session and tick loop)\<close>

datatype connState = Connected | Playing

type_synonym ws = nat

record clientData =
  clientId :: clientId
  username :: string
  state :: connState
  chunkRequests :: "chunkKey list"

datatype message =
    InputAck int
  | WorldSnapshot int real "playerState list" "vehicleState list" int
  | ChunkData chunkKey "(vec3 \<times> vec3) list"
  | VehicleEnter entityId clientId
  | VehicleExit entityId clientId vec3

text \<open>
  The server's state.  \<open>sent\<close> is not a field of the class: it records, in order, every
  message written to a socket, so that what a tick sends can be stated.
\<close>

record server =
  physicsWorld :: physicsWorld
  terrainManager :: terrainManager
  vehicleManager :: vehicleManager
  playerManager :: playerManager
  clients :: "(ws \<times> clientData) list"
  tickNumber :: int
  lastTickTime :: real
  sent :: "(ws \<times> message) list"

text \<open>
  What the server takes from outside: the noise functions, the engine's ray cast and step,
  the per-type force models of the vehicles (which act on the physics world only), and
  which sockets are open (\<open>ws.readyState === WebSocket.OPEN\<close>).
\<close>

record env =
  noise :: terrainNoise
  rayCaster :: raycaster
  engineStep :: "rapierWorld \<Rightarrow> rapierWorld"
  vehicleForces :: "real \<Rightarrow> vehicleManager \<Rightarrow> physicsWorld \<Rightarrow> physicsWorld"
  socketOpen :: "ws \<Rightarrow> bool"

definition send :: "env \<Rightarrow> ws \<Rightarrow> message \<Rightarrow> server \<Rightarrow> server" where
  "send e w m s = (if socketOpen e w then s\<lparr>sent := sent s @ [(w, m)]\<rparr> else s)"

definition broadcast :: "env \<Rightarrow> message \<Rightarrow> ws option \<Rightarrow> server \<Rightarrow> server" where
  "broadcast e m excludeWs s =
     fold (\<lambda>(w, cd) t. if Some w \<noteq> excludeWs then send e w m t else t) (clients s) s"

definition handlePlayerInput :: "env \<Rightarrow> real \<Rightarrow> ws \<Rightarrow> input \<Rightarrow> server \<Rightarrow> server" where
  "handlePlayerInput e now w inp s =
     (case Map_get (clients s) w of
        None \<Rightarrow> s
      | Some cd \<Rightarrow>
          if state cd \<noteq> Playing then s
          else send e w (InputAck (seq inp))
                 (s\<lparr>playerManager :=
                      setPlayerInput now (clientData.clientId cd) inp (playerManager s)\<rparr>))"

text \<open>
  \<open>handleVehicleEnter\<close>, in two parts: the lookups that lead to the nearest vehicle within
  5 units of the requesting client's player (none when the connection or the player is
  unknown or the player already sits in a vehicle), and the entry itself.
\<close>

definition vehicleInReach :: "server \<Rightarrow> ws \<Rightarrow> (clientId \<times> nearestVehicle) option" where
  "vehicleInReach s w =
     (case Map_get (clients s) w of
        None \<Rightarrow> None
      | Some cd \<Rightarrow>
          (case getPlayerState (clientData.clientId cd) (playerManager s) (physicsWorld s) of
             None \<Rightarrow> None
           | Some playerState \<Rightarrow>
               if inVehicle playerState then None
               else (case ps_position playerState of
                       None \<Rightarrow> None
                     | Some position \<Rightarrow>
                         map_option (Pair (clientData.clientId cd))
                           (findNearestVehicle (vehicleManager s, physicsWorld s) position 5))))"

definition handleVehicleEnter :: "env \<Rightarrow> ws \<Rightarrow> server \<Rightarrow> server" where
  "handleVehicleEnter e w s =
     (case vehicleInReach s w of
        None \<Rightarrow> s
      | Some (cid, nearest) \<Rightarrow>
          if occupied nearest then s
          else (let (ok, vm1, pw1) =
                      enterVehicle (n_entityId nearest) cid (vehicleManager s, physicsWorld s)
                in if ok
                   then (let (ok2, pm2, pw2) =
                               playerEnterVehicle cid (n_entityId nearest) (playerManager s, pw1)
                         in broadcast e (VehicleEnter (n_entityId nearest) cid) None
                              (s\<lparr>vehicleManager := vm1, playerManager := pm2,
                                  physicsWorld := pw2\<rparr>))
                   else s))"





text \<open>\<open>myPlayerState?.lastInputSeq || 0\<close>\<close>

definition yourLastInputSeq :: "playerState list \<Rightarrow> clientId \<Rightarrow> int" where
  "yourLastInputSeq playerStates cid =
     (case List.find (\<lambda>p. ps_clientId p = cid) playerStates of
        None \<Rightarrow> 0
      | Some myPlayerState \<Rightarrow> ps_lastInputSeq myPlayerState)"




text \<open>
  Two physics worlds in which every entity that has a state has it at the same place, and
  two intermediate results of the nearest-vehicle search that name the same vehicle at the
  same distance.
\<close>

definition sameGeometry :: "physicsWorld \<Rightarrow> physicsWorld \<Rightarrow> bool" where
  "sameGeometry pw pw' =
     (\<forall>eid. map_option (\<lambda>(b, d). translation b) (getEntityState pw' eid)
            = map_option (\<lambda>(b, d). translation b) (getEntityState pw eid))"

definition sameNearest :: "nearestVehicle option \<times> real \<Rightarrow> nearestVehicle option \<times> real \<Rightarrow> bool" where
  "sameNearest acc acc' =
     (snd acc = snd acc' \<and> map_option n_entityId (fst acc) = map_option n_entityId (fst acc'))"

section \<open>Runs of the player manager\<close>

text \<open>
  What reaches the player manager between two snapshots: a \<open>player_input\<close> message
  (\<open>handlePlayerInput\<close> calls \<open>setPlayerInput\<close>), the per-tick \<open>update\<close>, and every other
  change of the physics world (the engine's step, terrain streaming, vehicles), which
  leaves the manager's own maps alone.
\<close>

datatype event =
    PlayerInputMsg real clientId input
  | PlayerUpdate real
  | WorldChange physicsWorld

fun applyEvent ::
  "terrainNoise \<Rightarrow> raycaster \<Rightarrow> event \<Rightarrow> playerManager \<times> physicsWorld
     \<Rightarrow> playerManager \<times> physicsWorld" where
  "applyEvent tn castRay (PlayerInputMsg now cid inp) s = (setPlayerInput now cid inp (fst s), snd s)"
| "applyEvent tn castRay (PlayerUpdate deltaTime) s = update tn castRay deltaTime s"
| "applyEvent tn castRay (WorldChange pw') s = (fst s, pw')"

definition runEvents ::
  "terrainNoise \<Rightarrow> raycaster \<Rightarrow> event list \<Rightarrow> playerManager \<times> physicsWorld
     \<Rightarrow> playerManager \<times> physicsWorld" where
  "runEvents tn castRay es s = fold (applyEvent tn castRay) es s"

text \<open>
  The acknowledgment a snapshot reports for a client:
  \<open>myPlayerState?.lastInputSeq || 0\<close>, read from the player's record.
\<close>

definition lastProcessedInputSeq :: "clientId \<Rightarrow> playerManager \<Rightarrow> int" where
  "lastProcessedInputSeq cid pm =
     (case Map_get (players pm) (PlayerId cid) of None \<Rightarrow> 0 | Some p \<Rightarrow> lastInputSeq p)"

text \<open>
  The inputs of client \<open>cid\<close> in a run arrive in order: each sequence number is at least
  the one delivered before it (\<open>k\<close> is the last one delivered so far).
\<close>

fun inOrder :: "clientId \<Rightarrow> int \<Rightarrow> event list \<Rightarrow> bool" where
  "inOrder cid k [] = True"
| "inOrder cid k (PlayerInputMsg now c inp # es) =
     (if c = cid then k \<le> seq inp \<and> inOrder cid (seq inp) es else inOrder cid k es)"
| "inOrder cid k (e # es) = inOrder cid k es"

fun lastDelivered :: "clientId \<Rightarrow> int \<Rightarrow> event list \<Rightarrow> int" where
  "lastDelivered cid k [] = k"
| "lastDelivered cid k (PlayerInputMsg now c inp # es) =
     (if c = cid then lastDelivered cid (seq inp) es else lastDelivered cid k es)"
| "lastDelivered cid k (e # es) = lastDelivered cid k es"

text \<open>
  The stored input of a player is never older than what was processed for it, and never
  newer than the last delivery.
\<close>

definition seqInv :: "clientId \<Rightarrow> int \<Rightarrow> playerManager \<Rightarrow> bool" where
  "seqInv cid k pm =
     (case Map_get (players pm) (PlayerId cid) of
        None \<Rightarrow> True
      | Some p \<Rightarrow>
          lastInputSeq p \<le> k \<and>
          (case Map_get (playerInputs pm) (PlayerId cid) of
             None \<Rightarrow> True
           | Some i \<Rightarrow> lastInputSeq p \<le> seq i \<and> seq i \<le> k))"







section \<open>Concrete states used as witnesses\<close>

definition demoDriver :: player where
  "demoDriver = \<lparr>player.entityId = PlayerId ''c1'', clientId = ''c1'', username = ''Player'',
     health = 100, stamina = 100, isRunning = False, isCrouching = False, yaw = 0,
     vehicleId = Some (VehicleId ''v1''), lastInputSeq = 7\<rparr>"

definition demoDriverManager :: playerManager where
  "demoDriverManager = \<lparr>players = [(PlayerId ''c1'', demoDriver)],
     playerInputs = [(PlayerId ''c1'', idleInput)], inputHistory = [(PlayerId ''c1'', [])]\<rparr>"

definition flatTerrain :: terrainNoise where
  "flatTerrain = \<lparr>getTerrainHeight = (\<lambda>_ _. 0), getCityInfluence = (\<lambda>_ _. 0),
                  getCityBuildings = (\<lambda>_ _. [])\<rparr>"

definition noHit :: raycaster where
  "noHit = (\<lambda>_ _ _. None)"

definition demoWalker :: player where
  "demoWalker = \<lparr>player.entityId = PlayerId ''c1'', clientId = ''c1'', username = ''Player'',
     health = 100, stamina = 100, isRunning = False, isCrouching = False, yaw = 0,
     vehicleId = None, lastInputSeq = 0\<rparr>"

definition demoWalkerManager :: playerManager where
  "demoWalkerManager = \<lparr>players = [(PlayerId ''c1'', demoWalker)],
     playerInputs = [(PlayerId ''c1'', idleInput)], inputHistory = [(PlayerId ''c1'', [])]\<rparr>"

definition demoWalkerWorld :: physicsWorld where
  "demoWalkerWorld = createPlayerBody (PlayerId ''c1'') (Vec3 0 (19 / 20) 0) ''c1'' newPhysicsWorld"

definition inputWithSeq :: "int \<Rightarrow> input" where
  "inputWithSeq k = idleInput\<lparr>seq := k\<rparr>"

definition afterSeq2 :: "playerManager \<times> physicsWorld" where
  "afterSeq2 = runEvents flatTerrain noHit
     [PlayerInputMsg 0 ''c1'' (inputWithSeq 2), PlayerUpdate (1 / 30)]
     (demoWalkerManager, demoWalkerWorld)"

definition afterStale1 :: "playerManager \<times> physicsWorld" where
  "afterStale1 = runEvents flatTerrain noHit
     [PlayerInputMsg 0 ''c1'' (inputWithSeq 1), PlayerUpdate (1 / 30)] afterSeq2"

text \<open>A player that has fallen below the terrain, still falling, who asks to jump.\<close>

definition fallenWorld :: physicsWorld where
  "fallenWorld = setVelocity (PlayerId ''c1'') (Vec3 0 (- 5) 0)
                   (setPosition (PlayerId ''c1'') (Vec3 0 (- 10) 0) demoWalkerWorld)"

definition jumpInput :: input where
  "jumpInput = idleInput\<lparr>jump := True, seq := 3\<rparr>"

text \<open>The same player in the air above the terrain, falling.\<close>

definition fallingWorld :: physicsWorld where
  "fallingWorld = setVelocity (PlayerId ''c1'') (Vec3 0 (- 5) 0) demoWalkerWorld"

text \<open>The same client sends its handshake twice: \<open>spawnPlayer\<close> runs twice for one id.\<close>

definition spawnedOnce :: "playerManager \<times> terrainState" where
  "spawnedOnce = snd (spawnPlayer flatTerrain ''c1'' (Vec3 0 0 0) ''Player''
                        (newPlayerManager, newTerrainManager, newPhysicsWorld))"

definition spawnedTwice :: "playerManager \<times> terrainState" where
  "spawnedTwice = snd (spawnPlayer flatTerrain ''c1'' (Vec3 0 0 0) ''Player'' spawnedOnce)"

text \<open>A world with one free car.\<close>

definition oneCar :: vehicleWorld where
  "oneCar = snd (spawnVehicle (VehicleId ''v1'') ''car'' (Vec3 3 0 0) (newVehicleManager, newPhysicsWorld))"

text \<open>A car, two players within reach of it, and their two connections.\<close>

definition carAndTwoPlayers :: server where
  "carAndTwoPlayers =
     \<lparr>physicsWorld =
        createPlayerBody (PlayerId ''c2'') (Vec3 3 (1 / 4) 4) ''c2''
          (createPlayerBody (PlayerId ''c1'') (Vec3 0 (1 / 4) 0) ''c1'' (snd oneCar)),
      terrainManager = newTerrainManager,
      vehicleManager = fst oneCar,
      playerManager =
        \<lparr>players = [(PlayerId ''c1'', demoWalker),
                     (PlayerId ''c2'', demoWalker\<lparr>player.entityId := PlayerId ''c2'',
                                                  player.clientId := ''c2''\<rparr>)],
         playerInputs = [(PlayerId ''c1'', idleInput), (PlayerId ''c2'', idleInput)],
         inputHistory = [(PlayerId ''c1'', []), (PlayerId ''c2'', [])]\<rparr>,
      clients = [(1, \<lparr>clientId = ''c1'', username = ''Player'', state = Playing, chunkRequests = []\<rparr>),
                 (2, \<lparr>clientId = ''c2'', username = ''Player'', state = Playing, chunkRequests = []\<rparr>)],
      tickNumber = 0, lastTickTime = 0, sent = []\<rparr>"

definition demoEnv :: env where
  "demoEnv = \<lparr>noise = flatTerrain, rayCaster = noHit, engineStep = (\<lambda>w. w),
              vehicleForces = (\<lambda>deltaTime vm pw. pw), socketOpen = (\<lambda>w. True)\<rparr>"

definition carSeenFrom :: "real \<Rightarrow> nearestVehicle" where
  "carSeenFrom d = \<lparr>n_entityId = VehicleId ''v1'', n_vehicleType = ''car'', distance = d,
                    occupied = False\<rparr>"

text \<open>
  Chunk streaming: the chunks around the origin are loaded for a spawn, the tracked
  positions vanish for one tick (the only player boards a vehicle), and come back.
\<close>

definition streamSpawn :: terrainState where
  "streamSpawn = forceLoadAroundPosition flatTerrain 0 0 1 (newTerrainManager, newPhysicsWorld)"

definition streamAway :: terrainState where
  "streamAway = updateForPlayers flatTerrain [] streamSpawn"

definition streamBack :: terrainState where
  "streamBack = updateForPlayers flatTerrain [(PlayerId ''c1'', 0, 0)] streamAway"












section \<open>Players in vehicles: input is discarded\<close>

lemma updatePlayerMovement_seq:
  "lastInputSeq (fst (updatePlayerMovement tn castRay eid p inp dt pw)) = lastInputSeq p
   \<or> lastInputSeq (fst (updatePlayerMovement tn castRay eid p inp dt pw)) = seq inp"
  by (simp add: updatePlayerMovement_def Let_def split: option.splits)

lemma updatePlayerMovement_vehicleId:
  "vehicleId (fst (updatePlayerMovement tn castRay eid p inp dt pw)) = vehicleId p"
  by (simp add: updatePlayerMovement_def Let_def split: option.splits)

lemma updatePlayer_inputs:
  "playerInputs (fst (updatePlayer tn castRay dt e s)) = playerInputs (fst s)"
  "inputHistory (fst (updatePlayer tn castRay dt e s)) = inputHistory (fst s)"
  by (auto simp: updatePlayer_def Let_def split: option.splits prod.splits)

lemma updatePlayer_in_vehicle:
  assumes "Map_get (players (fst s)) eid = Some p" and "vehicleId p \<noteq> None"
  shows "Map_get (players (fst (updatePlayer tn castRay dt e s))) eid = Some p"
  using assms
  by (auto simp: updatePlayer_def Let_def update_conv' split: option.splits prod.splits)

lemma fold_updatePlayer_inputs:
  "playerInputs (fst (fold (updatePlayer tn castRay dt) ks s)) = playerInputs (fst s)
   \<and> inputHistory (fst (fold (updatePlayer tn castRay dt) ks s)) = inputHistory (fst s)"
  by (induction ks arbitrary: s) (simp_all add: updatePlayer_inputs)

lemma fold_updatePlayer_in_vehicle:
  assumes "Map_get (players (fst s)) eid = Some p" and "vehicleId p \<noteq> None"
  shows "Map_get (players (fst (fold (updatePlayer tn castRay dt) ks s))) eid = Some p"
  using assms
proof (induction ks arbitrary: s)
  case Nil
  then show ?case by simp
next
  case (Cons k ks)
  then show ?case using updatePlayer_in_vehicle[of s eid p] by simp
qed

lemma setPlayerInput_in_vehicle:
  assumes "Map_get (players pm) (PlayerId cid) = Some p" and "vehicleId p \<noteq> None"
  shows "setPlayerInput now cid inp pm = pm"
  using assms by (simp add: setPlayerInput_def)

lemma getPlayerState_in_vehicle:
  assumes "Map_get (players pm) (PlayerId cid) = Some p" and "vehicleId p \<noteq> None"
  shows "map_option ps_lastInputSeq (getPlayerState cid pm pw) = Some (lastInputSeq p)"
  using assms by (simp add: getPlayerState_def)

text \<open>
  Claim C10.  While a player's \<open>vehicleId\<close> is set, \<open>setPlayerInput\<close> returns at once:
  the manager is unchanged (stored input, yaw, input history, \<open>lastInputSeq\<close>).  The
  following \<open>update\<close> skips the player, so the player's record, every stored input and
  every history are as before, and the player state built for the snapshot still carries
  the old \<open>lastInputSeq\<close>.
\<close>

theorem player_input_in_vehicle_discarded:
  assumes "Map_get (players pm) (PlayerId cid) = Some p" and "vehicleId p \<noteq> None"
  shows "setPlayerInput now cid inp pm = pm \<and>
         (let (pm', pw') = update tn castRay dt (setPlayerInput now cid inp pm, pw) in
            Map_get (players pm') (PlayerId cid) = Some p \<and>
            playerInputs pm' = playerInputs pm \<and> inputHistory pm' = inputHistory pm \<and>
            map_option ps_lastInputSeq (getPlayerState cid pm' pw') = Some (lastInputSeq p))"
proof -
  have eq: "setPlayerInput now cid inp pm = pm"
    using assms by (rule setPlayerInput_in_vehicle)
  obtain pm' pw' where r: "update tn castRay dt (pm, pw) = (pm', pw')"
    by (cases "update tn castRay dt (pm, pw)")
  have 1: "Map_get (players pm') (PlayerId cid) = Some p"
    using fold_updatePlayer_in_vehicle[of "(pm, pw)" "PlayerId cid" p tn castRay dt
            "Map_keys (players pm)"] assms r
    by (simp add: update_def)
  have 2: "playerInputs pm' = playerInputs pm \<and> inputHistory pm' = inputHistory pm"
    using fold_updatePlayer_inputs[of tn castRay dt "Map_keys (players pm)" "(pm, pw)"] r
    by (simp add: update_def)
  have 3: "map_option ps_lastInputSeq (getPlayerState cid pm' pw') = Some (lastInputSeq p)"
    using 1 assms(2) by (rule getPlayerState_in_vehicle)
  show ?thesis using eq r 1 2 3 by simp
qed

theorem player_input_in_vehicle_discarded_witness:
  "Map_get (players demoDriverManager) (PlayerId ''c1'') = Some demoDriver \<and>
   vehicleId demoDriver \<noteq> None \<and>
   setPlayerInput 0 ''c1'' (idleInput\<lparr>seq := 8\<rparr>) demoDriverManager = demoDriverManager"
  using player_input_in_vehicle_discarded[of demoDriverManager "''c1''" demoDriver 0 "idleInput\<lparr>seq := 8\<rparr>"]
  by (simp add: demoDriverManager_def demoDriver_def)

section \<open>Input sequence numbers\<close>

lemma setPlayerInput_other:
  assumes "c \<noteq> cid"
  shows "Map_get (players (setPlayerInput now c inp pm)) (PlayerId cid) = Map_get (players pm) (PlayerId cid)"
    and "Map_get (playerInputs (setPlayerInput now c inp pm)) (PlayerId cid) = Map_get (playerInputs pm) (PlayerId cid)"
  using assms
  by (auto simp: setPlayerInput_def Let_def update_conv' split: option.splits)

lemma setPlayerInput_same:
  "Map_get (players (setPlayerInput now cid inp pm)) (PlayerId cid) = None \<longleftrightarrow> Map_get (players pm) (PlayerId cid) = None"
  "Map_get (players pm) (PlayerId cid) = Some p \<Longrightarrow>
     \<exists>p'. Map_get (players (setPlayerInput now cid inp pm)) (PlayerId cid) = Some p' \<and> lastInputSeq p' = lastInputSeq p"
  "Map_get (players pm) (PlayerId cid) = Some p \<Longrightarrow>
     Map_get (playerInputs (setPlayerInput now cid inp pm)) (PlayerId cid) = Some inp
     \<or> Map_get (playerInputs (setPlayerInput now cid inp pm)) (PlayerId cid) = Map_get (playerInputs pm) (PlayerId cid)"
  by (auto simp: setPlayerInput_def Let_def update_conv' split: option.splits)

lemma setPlayerInput_ack:
  "lastProcessedInputSeq cid (setPlayerInput now c inp pm) = lastProcessedInputSeq cid pm"
  by (auto simp: lastProcessedInputSeq_def setPlayerInput_def Let_def update_conv' split: option.splits)

lemma setPlayerInput_seqInv_same:
  assumes "seqInv cid k pm" and "k \<le> seq inp"
  shows "seqInv cid (seq inp) (setPlayerInput now cid inp pm)"
  using assms
  by (auto simp: seqInv_def setPlayerInput_def Let_def update_conv' split: option.splits)

lemma setPlayerInput_seqInv_other:
  assumes "seqInv cid k pm" and "c \<noteq> cid"
  shows "seqInv cid k (setPlayerInput now c inp pm)"
  using assms setPlayerInput_other[OF assms(2), of now inp pm]
  by (auto simp: seqInv_def split: option.splits)


lemma updatePlayer_seqInv:
  assumes "seqInv cid k (fst s)"
  shows "seqInv cid k (fst (updatePlayer tn castRay dt e s))
         \<and> lastProcessedInputSeq cid (fst s) \<le> lastProcessedInputSeq cid (fst (updatePlayer tn castRay dt e s))"
proof (cases "e = PlayerId cid")
  case False
  then have "Map_get (players (fst (updatePlayer tn castRay dt e s))) (PlayerId cid)
             = Map_get (players (fst s)) (PlayerId cid)"
    by (auto simp: updatePlayer_def Let_def update_conv' split: option.splits prod.splits)
  then show ?thesis using assms updatePlayer_inputs(1)[of tn castRay dt e s]
    by (auto simp: seqInv_def lastProcessedInputSeq_def split: option.splits)
next
  case True
  obtain pm pw where s: "s = (pm, pw)" by (cases s)
  show ?thesis
  proof (cases "Map_get (players pm) (PlayerId cid)")
    case None
    then show ?thesis using assms s True by (simp add: updatePlayer_def)
  next
    case (Some p)
    show ?thesis
    proof (cases "vehicleId p \<noteq> None \<or> Map_get (playerInputs pm) (PlayerId cid) = None")
      case True
      then show ?thesis using assms s Some \<open>e = PlayerId cid\<close>
        by (auto simp: updatePlayer_def)
    next
      case False
      then obtain i where i: "Map_get (playerInputs pm) (PlayerId cid) = Some i" and v: "vehicleId p = None"
        by auto
      obtain p' pw' where m: "updatePlayerMovement tn castRay (PlayerId cid) p i dt pw = (p', pw')"
        by (cases "updatePlayerMovement tn castRay (PlayerId cid) p i dt pw")
      have d: "lastInputSeq p' = lastInputSeq p \<or> lastInputSeq p' = seq i"
        using updatePlayerMovement_seq[of tn castRay "PlayerId cid" p i dt pw] m by simp
      have r: "updatePlayer tn castRay dt e s = (pm\<lparr>players := Map_set (PlayerId cid) p' (players pm)\<rparr>, pw')"
        using s Some i v m \<open>e = PlayerId cid\<close> by (simp add: updatePlayer_def)
      have inv: "lastInputSeq p \<le> seq i \<and> seq i \<le> k \<and> lastInputSeq p \<le> k"
        using assms s Some i by (simp add: seqInv_def)
      show ?thesis using r d inv s Some i
        by (auto simp: seqInv_def lastProcessedInputSeq_def update_conv')
    qed
  qed
qed

lemma update_seqInv:
  assumes "seqInv cid k (fst s)"
  shows "seqInv cid k (fst (fold (updatePlayer tn castRay dt) ks s))
         \<and> lastProcessedInputSeq cid (fst s)
             \<le> lastProcessedInputSeq cid (fst (fold (updatePlayer tn castRay dt) ks s))"
  using assms
proof (induction ks arbitrary: s)
  case Nil
  then show ?case by simp
next
  case (Cons e ks)
  have 1: "seqInv cid k (fst (updatePlayer tn castRay dt e s))"
    and 2: "lastProcessedInputSeq cid (fst s) \<le> lastProcessedInputSeq cid (fst (updatePlayer tn castRay dt e s))"
    using updatePlayer_seqInv[OF Cons.prems] by simp_all
  from Cons.IH[OF 1] 2 show ?case by simp
qed

lemma applyEvent_seqInv:
  assumes "seqInv cid k (fst s)" and "inOrder cid k [e]"
  shows "seqInv cid (lastDelivered cid k [e]) (fst (applyEvent tn castRay e s))
         \<and> lastProcessedInputSeq cid (fst s) \<le> lastProcessedInputSeq cid (fst (applyEvent tn castRay e s))"
proof (cases e)
  case (PlayerInputMsg now c inp)
  then show ?thesis using assms
    by (auto simp: setPlayerInput_ack setPlayerInput_seqInv_same setPlayerInput_seqInv_other)
next
  case (PlayerUpdate dt)
  then show ?thesis using update_seqInv[OF assms(1)] by (simp add: update_def)
next
  case (WorldChange pw')
  then show ?thesis using assms by simp
qed

lemma inOrder_Cons: "inOrder cid k (e # es) = (inOrder cid k [e] \<and> inOrder cid (lastDelivered cid k [e]) es)"
  by (cases e) auto

lemma lastDelivered_Cons: "lastDelivered cid k (e # es) = lastDelivered cid (lastDelivered cid k [e]) es"
  by (cases e) auto

lemma runEvents_seqInv:
  assumes "seqInv cid k (fst s)" and "inOrder cid k es"
  shows "seqInv cid (lastDelivered cid k es) (fst (runEvents tn castRay es s))
         \<and> lastProcessedInputSeq cid (fst s) \<le> lastProcessedInputSeq cid (fst (runEvents tn castRay es s))"
  using assms
proof (induction es arbitrary: k s)
  case Nil
  then show ?case by (simp add: runEvents_def)
next
  case (Cons e es)
  from Cons.prems(2) have o1: "inOrder cid k [e]" and o2: "inOrder cid (lastDelivered cid k [e]) es"
    using inOrder_Cons[of cid k e es] by simp_all
  have 1: "seqInv cid (lastDelivered cid k [e]) (fst (applyEvent tn castRay e s))"
    and 2: "lastProcessedInputSeq cid (fst s) \<le> lastProcessedInputSeq cid (fst (applyEvent tn castRay e s))"
    using applyEvent_seqInv[OF Cons.prems(1) o1] by simp_all
  from Cons.IH[OF 1 o2] 2 lastDelivered_Cons[of cid k e es]
  show ?case by (simp add: runEvents_def)
qed

lemma inOrder_append:
  "inOrder cid k (es1 @ es2) = (inOrder cid k es1 \<and> inOrder cid (lastDelivered cid k es1) es2)"
proof (induction es1 arbitrary: k)
  case Nil
  then show ?case by simp
next
  case (Cons e es1)
  then show ?case by (cases e) auto
qed

text \<open>
  Claim C1, as the code has it.  The server compares no sequence numbers: the stored input
  is the last one delivered, and \<open>update\<close> copies its number into \<open>lastInputSeq\<close>.
  So the acknowledgment never decreases along a run in which the client's inputs are
  delivered in non-decreasing order of their sequence numbers (duplicates included),
  whatever else happens in between.
\<close>

theorem lastInputSeq_monotone_in_order:
  assumes "seqInv cid k (fst s)" and "inOrder cid k (es1 @ es2)"
  shows "lastProcessedInputSeq cid (fst (runEvents tn castRay es1 s))
           \<le> lastProcessedInputSeq cid (fst (runEvents tn castRay (es1 @ es2) s))"
proof -
  from assms(2) have o1: "inOrder cid k es1" and o2: "inOrder cid (lastDelivered cid k es1) es2"
    by (simp_all add: inOrder_append)
  have 1: "seqInv cid (lastDelivered cid k es1) (fst (runEvents tn castRay es1 s))"
    using runEvents_seqInv[OF assms(1) o1] by simp
  have "runEvents tn castRay (es1 @ es2) s = runEvents tn castRay es2 (runEvents tn castRay es1 s)"
    by (simp add: runEvents_def)
  then show ?thesis using runEvents_seqInv[OF 1 o2] by simp
qed

lemmas walker_eval = runEvents_def demoWalkerManager_def demoWalkerWorld_def demoWalker_def
  idleInput_def inputWithSeq_def setPlayerInput_def update_def updatePlayer_def
  updatePlayerMovement_def Let_def createPlayerBody_def newPhysicsWorld_def
  emptyRapierWorld_def createRigidBody_def createCollider_def bodyOf_def
  updatePlayerGrounded_def groundedFlag_def noHit_def flatTerrain_def setVelocity_def
  modifyBody_def setPosition_def getHeightAt_def approach_def Vec3_def player_height_def
  inputBufferSize_def walkSpeed_def airControl_def maxStamina_def staminaRegenRate_def
  lastProcessedInputSeq_def

theorem lastInputSeq_monotone_in_order_witness:
  "seqInv ''c1'' 0 (fst (demoWalkerManager, demoWalkerWorld)) \<and>
   inOrder ''c1'' 0 ([PlayerInputMsg 0 ''c1'' (inputWithSeq 1), PlayerUpdate (1 / 30)] @
                     [PlayerInputMsg 0 ''c1'' (inputWithSeq 2), PlayerUpdate (1 / 30)]) \<and>
   lastProcessedInputSeq ''c1'' (fst (runEvents flatTerrain noHit
       [PlayerInputMsg 0 ''c1'' (inputWithSeq 1), PlayerUpdate (1 / 30)]
       (demoWalkerManager, demoWalkerWorld)))
     \<le> lastProcessedInputSeq ''c1'' (fst (runEvents flatTerrain noHit
       ([PlayerInputMsg 0 ''c1'' (inputWithSeq 1), PlayerUpdate (1 / 30)] @
        [PlayerInputMsg 0 ''c1'' (inputWithSeq 2), PlayerUpdate (1 / 30)])
       (demoWalkerManager, demoWalkerWorld)))"
  using lastInputSeq_monotone_in_order[of "''c1''" 0 "(demoWalkerManager, demoWalkerWorld)"
      "[PlayerInputMsg 0 ''c1'' (inputWithSeq 1), PlayerUpdate (1 / 30)]"
      "[PlayerInputMsg 0 ''c1'' (inputWithSeq 2), PlayerUpdate (1 / 30)]" flatTerrain noHit]
  by (simp add: seqInv_def demoWalkerManager_def demoWalker_def idleInput_def inputWithSeq_def)

text \<open>
  The claim as stated fails: input 2 is delivered and processed, then the stale input 1
  arrives; the next update takes the acknowledgment back from 2 to 1, and the delivery
  alone already changes the stored input.
\<close>

theorem stale_input_regresses_counterexample:
  "lastProcessedInputSeq ''c1'' (fst afterSeq2) = 2 \<and>
   lastProcessedInputSeq ''c1'' (fst afterStale1) = 1 \<and>
   \<not> lastProcessedInputSeq ''c1'' (fst afterSeq2) \<le> lastProcessedInputSeq ''c1'' (fst afterStale1) \<and>
   runEvents flatTerrain noHit [PlayerInputMsg 0 ''c1'' (inputWithSeq 1)] afterSeq2 \<noteq> afterSeq2"
  by (simp add: afterSeq2_def afterStale1_def walker_eval)


section \<open>Rejected jumps\<close>

lemma bodyOf_setVelocity:
  "bodyOf pw eid = Some b \<Longrightarrow> bodyOf (setVelocity eid v pw) eid = Some (b\<lparr>linvel := v\<rparr>)"
  by (auto simp: bodyOf_def setVelocity_def modifyBody_def update_conv' split: option.splits)

lemma bodyOf_setPosition:
  "bodyOf pw eid = Some b \<Longrightarrow> bodyOf (setPosition eid v pw) eid = Some (b\<lparr>translation := v\<rparr>)"
  by (auto simp: bodyOf_def setPosition_def modifyBody_def update_conv' split: option.splits)

lemma bodyOf_updatePlayerGrounded:
  "bodyOf (updatePlayerGrounded castRay e pw) eid = bodyOf pw eid"
  by (auto simp: bodyOf_def updatePlayerGrounded_def Let_def split: option.splits entityData.splits prod.splits)

text \<open>
  Claim C5, as the code has it.  A player whose body and entity data exist is updated with
  an input that asks to jump while the player is not grounded (as just probed) or is
  crouching.  Then no jump impulse is applied: the vertical velocity left on the body is
  the one it had, except when the safety clamp fires because the body is more than one
  unit below its lowest allowed height, where the clamp writes vertical velocity 0.  In
  both cases \<open>lastInputSeq\<close> becomes the input's sequence number, and the whole result
  is the one the same input without the jump flag gives: nothing of the request is kept.
\<close>

theorem rejected_jump_acknowledged:
  assumes body: "bodyOf pw eid = Some body"
    and data: "Map_get (entityData pw) eid = Some d"
    and jmp: "jump inp"
    and rej: "\<not> groundedFlag (updatePlayerGrounded castRay eid pw) eid \<or> crouch inp"
  shows "let (p', pw') = updatePlayerMovement tn castRay eid p inp deltaTime pw in
           lastInputSeq p' = seq inp \<and>
           (\<exists>b'. bodyOf pw' eid = Some b' \<and>
                 vy (linvel b') =
                   (if vy (translation body)
                         < getHeightAt tn (vx (translation body)) (vz (translation body))
                             + player_height / 2 - 1
                    then 0 else vy (linvel body))) \<and>
           updatePlayerMovement tn castRay eid p (inp\<lparr>jump := False\<rparr>) deltaTime pw = (p', pw')"
  using assms
  by (auto simp: updatePlayerMovement_def Let_def bodyOf_setVelocity bodyOf_setPosition
        bodyOf_updatePlayerGrounded Vec3_def)

theorem rejected_jump_acknowledged_witness:
  "bodyOf fallingWorld (PlayerId ''c1'')
     = Some \<lparr>translation = Vec3 0 (9 / 5) 0, linvel = Vec3 0 (- 5) 0, enabled = True\<rparr> \<and>
   Map_get (entityData fallingWorld) (PlayerId ''c1'') = Some (PlayerData ''c1'' False (Vec3 0 1 0)) \<and>
   jump jumpInput \<and>
   \<not> groundedFlag (updatePlayerGrounded noHit (PlayerId ''c1'') fallingWorld) (PlayerId ''c1'') \<and>
   (let (p', pw') = updatePlayerMovement flatTerrain noHit (PlayerId ''c1'') demoWalker jumpInput
                      (1 / 30) fallingWorld
    in lastInputSeq p' = 3 \<and>
       map_option (\<lambda>b. vy (linvel b)) (bodyOf pw' (PlayerId ''c1'')) = Some (- 5))"
  using rejected_jump_acknowledged[of fallingWorld "PlayerId ''c1''"
      "\<lparr>translation = Vec3 0 (9 / 5) 0, linvel = Vec3 0 (- 5) 0, enabled = True\<rparr>"
      "PlayerData ''c1'' False (Vec3 0 1 0)" jumpInput noHit flatTerrain demoWalker "1 / 30"]
  by (simp add: fallingWorld_def jumpInput_def walker_eval)

text \<open>
  The claim as stated fails where the safety clamp fires: the player is airborne below the
  terrain with vertical velocity \<open>-5\<close>; after the update the body's vertical velocity
  is \<open>0\<close>.
\<close>

theorem jump_rejected_velocity_counterexample:
  "jump jumpInput \<and>
   \<not> groundedFlag (updatePlayerGrounded noHit (PlayerId ''c1'') fallenWorld) (PlayerId ''c1'') \<and>
   map_option (\<lambda>b. vy (linvel b)) (bodyOf fallenWorld (PlayerId ''c1'')) = Some (- 5) \<and>
   map_option (\<lambda>b. vy (linvel b))
     (bodyOf (snd (updatePlayerMovement flatTerrain noHit (PlayerId ''c1'') demoWalker jumpInput
                     (1 / 30) fallenWorld)) (PlayerId ''c1'')) = Some 0"
  by (simp add: fallenWorld_def jumpInput_def walker_eval)

section \<open>Entering a vehicle\<close>

lemma enterVehicle_success_iff:
  "fst (enterVehicle vid p s) = (\<exists>v. Map_get (vehicles (fst s)) vid = Some v \<and> vehicle.driverId v = None)"
  by (auto simp: enterVehicle_def split: prod.splits option.splits)

lemma enterVehicle_failure:
  "\<not> fst (enterVehicle vid p s) \<Longrightarrow> snd (enterVehicle vid p s) = s"
  by (auto simp: enterVehicle_def split: prod.splits option.splits)

lemma enterVehicle_driver:
  "fst (enterVehicle vid p s) \<Longrightarrow>
     \<exists>v. Map_get (vehicles (fst (snd (enterVehicle vid p s)))) vid = Some v \<and> vehicle.driverId v = Some p"
  by (auto simp: enterVehicle_def update_conv' split: prod.splits option.splits)

lemma enterVehicle_second:
  assumes "fst (enterVehicle vid p1 s)"
  shows "enterVehicle vid p2 (snd (enterVehicle vid p1 s)) = (False, snd (enterVehicle vid p1 s))"
proof -
  obtain vm1 pw1 where s1: "snd (enterVehicle vid p1 s) = (vm1, pw1)"
    by (cases "snd (enterVehicle vid p1 s)")
  obtain v where "Map_get (vehicles vm1) vid = Some v" and "vehicle.driverId v = Some p1"
    using enterVehicle_driver[OF assms] s1 by auto
  then have "enterVehicle vid p2 (vm1, pw1) = (False, vm1, pw1)"
    by (simp add: enterVehicle_def)
  then show ?thesis using s1 by simp
qed

lemma nearerVehicle_member:
  assumes "fst (fold (nearerVehicle pw pos) vs acc) = Some n"
  shows "fst acc = Some n \<or> (\<exists>v. (n_entityId n, v) \<in> set vs \<and> occupied n = (vehicle.driverId v \<noteq> None))"
  using assms
proof (induction vs arbitrary: acc)
  case Nil
  then show ?case by simp
next
  case (Cons entry vs)
  from Cons.IH[of "nearerVehicle pw pos entry acc"] Cons.prems
  have "fst (nearerVehicle pw pos entry acc) = Some n
        \<or> (\<exists>v. (n_entityId n, v) \<in> set vs \<and> occupied n = (vehicle.driverId v \<noteq> None))"
    by simp
  then show ?case
  proof
    assume h: "fst (nearerVehicle pw pos entry acc) = Some n"
    then show ?thesis
      by (cases entry; cases acc)
         (auto simp: nearerVehicle_def Let_def split: option.splits prod.splits if_splits)
  next
    assume "\<exists>v. (n_entityId n, v) \<in> set vs \<and> occupied n = (vehicle.driverId v \<noteq> None)"
    then show ?thesis by auto
  qed
qed

lemma nearerVehicle_same:
  assumes "sameGeometry pw pw'" and "sameNearest acc acc'"
  shows "sameNearest (nearerVehicle pw pos (k, v) acc) (nearerVehicle pw' pos (k, v') acc')"
proof -
  have g: "map_option (\<lambda>(b, d). translation b) (getEntityState pw' k)
            = map_option (\<lambda>(b, d). translation b) (getEntityState pw k)"
    using assms(1) by (simp add: sameGeometry_def)
  show ?thesis
  proof (cases "getEntityState pw k")
    case None
    then have "getEntityState pw' k = None" using g by simp
    then show ?thesis using None assms(2) by (cases acc; cases acc') (simp add: nearerVehicle_def)
  next
    case (Some bd)
    then obtain bd' where s': "getEntityState pw' k = Some bd'" using g by (cases "getEntityState pw' k") auto
    have t: "translation (fst bd') = translation (fst bd)" using g Some s' by (cases bd; cases bd') simp
    show ?thesis using Some s' t assms(2)
      by (cases acc; cases acc'; cases bd; cases bd')
         (auto simp: nearerVehicle_def Let_def sameNearest_def)
  qed
qed

lemma fold_nearerVehicle_same:
  assumes "sameGeometry pw pw'" and "sameNearest acc acc'" and "map fst vs = map fst vs'"
  shows "sameNearest (fold (nearerVehicle pw pos) vs acc) (fold (nearerVehicle pw' pos) vs' acc')"
  using assms(2,3)
proof (induction vs arbitrary: vs' acc acc')
  case Nil
  then show ?case by simp
next
  case (Cons entry vs)
  then obtain entry' vs1 where v': "vs' = entry' # vs1" and k: "fst entry = fst entry'" and r: "map fst vs = map fst vs1"
    by (cases vs') auto
  have "sameNearest (nearerVehicle pw pos entry acc) (nearerVehicle pw' pos entry' acc')"
    using nearerVehicle_same[OF assms(1) Cons.prems(1), of pos "fst entry" "snd entry" "snd entry'"] k
    by (metis prod.collapse)
  from Cons.IH[OF this r] v' show ?case by simp
qed

lemma map_fst_update: "Map_get vs k \<noteq> None \<Longrightarrow> map fst (Map_set k v vs) = map fst vs"
  by (induction vs) auto

lemma getEntityState_setEnabled:
  "map_option (\<lambda>(b, d). translation b) (getEntityState (setEnabled eid en pw) k)
     = map_option (\<lambda>(b, d). translation b) (getEntityState pw k)"
  by (auto simp: getEntityState_def setEnabled_def bodyOf_def modifyBody_def update_conv'
           split: option.splits)

lemma getEntityState_setEntityDriver:
  "map_option (\<lambda>(b, d). translation b) (getEntityState (setEntityDriver eid dr pw) k)
     = map_option (\<lambda>(b, d). translation b) (getEntityState pw k)"
  by (auto simp: getEntityState_def setEntityDriver_def bodyOf_def update_conv'
           split: option.splits entityData.splits)

lemma sameGeometry_enter:
  "sameGeometry pw (setEnabled (PlayerId c) False (setEntityDriver vid dr pw))"
  by (simp add: sameGeometry_def getEntityState_setEnabled getEntityState_setEntityDriver)

lemma fold_preserves:
  assumes "\<And>x t. g (f x t) = g t"
  shows "g (fold f xs s) = g s"
  by (induction xs arbitrary: s) (simp_all add: assms)

lemma send_fields:
  "physicsWorld (send e w m s) = physicsWorld s"
  "vehicleManager (send e w m s) = vehicleManager s"
  "playerManager (send e w m s) = playerManager s"
  "terrainManager (send e w m s) = terrainManager s"
  "clients (send e w m s) = clients s"
  "tickNumber (send e w m s) = tickNumber s"
  by (simp_all add: send_def)

lemma broadcast_fields:
  "physicsWorld (broadcast e m x s) = physicsWorld s"
  "vehicleManager (broadcast e m x s) = vehicleManager s"
  "playerManager (broadcast e m x s) = playerManager s"
  "clients (broadcast e m x s) = clients s"
  unfolding broadcast_def
  by (rule fold_preserves; simp add: send_fields split: prod.splits)+

lemma getPlayerState_other:
  assumes "c \<noteq> c2"
  shows "map_option (\<lambda>st. (inVehicle st, ps_position st))
           (getPlayerState c2 (pm\<lparr>players := Map_set (PlayerId c) p' (players pm)\<rparr>)
              (setEnabled (PlayerId c) en (setEntityDriver vid dr pw)))
         = map_option (\<lambda>st. (inVehicle st, ps_position st)) (getPlayerState c2 pm pw)"
  using assms
  by (auto simp: getPlayerState_def Let_def update_conv' bodyOf_def setEnabled_def setEntityDriver_def
        modifyBody_def split: option.splits entityData.splits)

lemma vehicleInReach_SomeD:
  assumes "vehicleInReach s w = Some (c, n)"
  obtains cd st pos where "Map_get (clients s) w = Some cd" and "clientData.clientId cd = c"
    and "getPlayerState c (playerManager s) (physicsWorld s) = Some st"
    and "\<not> inVehicle st" and "ps_position st = Some pos"
    and "findNearestVehicle (vehicleManager s, physicsWorld s) pos 5 = Some n"
  using assms
  by (auto simp: vehicleInReach_def split: option.splits if_splits)

lemma findNearestVehicle_entry:
  assumes "findNearestVehicle (vm, pw) pos d = Some n" and "distinct (Map_keys (vehicles vm))"
  shows "\<exists>v. Map_get (vehicles vm) (n_entityId n) = Some v \<and> occupied n = (vehicle.driverId v \<noteq> None)"
proof -
  from nearerVehicle_member[of pw pos "vehicles vm" "(None, d)" n] assms(1)
  obtain v where "(n_entityId n, v) \<in> set (vehicles vm)" and "occupied n = (vehicle.driverId v \<noteq> None)"
    by (auto simp: findNearestVehicle_def)
  then show ?thesis using assms(2) by auto
qed

lemma getPlayerState_player:
  "getPlayerState c pm pw = Some st \<Longrightarrow> \<exists>p. Map_get (players pm) (PlayerId c) = Some p"
  by (auto simp: getPlayerState_def Let_def split: option.splits)

lemma two_enter_requests:
  assumes d: "distinct (Map_keys (vehicles (vehicleManager s)))"
    and r1: "vehicleInReach s w1 = Some (c1, n1)"
    and r2: "vehicleInReach s w2 = Some (c2, n2)"
    and same: "n_entityId n1 = n_entityId n2"
    and ne: "c1 \<noteq> c2"
    and free: "\<not> occupied n1"
  shows "(\<exists>v. Map_get (vehicles (vehicleManager (handleVehicleEnter e w1 s))) (n_entityId n1) = Some v
              \<and> vehicle.driverId v = Some c1)
         \<and> handleVehicleEnter e w2 (handleVehicleEnter e w1 s) = handleVehicleEnter e w1 s"
proof -
  define vid where "vid = n_entityId n1"
  define vm where "vm = vehicleManager s"
  define pw where "pw = physicsWorld s"
  define pm where "pm = playerManager s"
  from r1 obtain cd1 st1 pos1 where
    f1: "findNearestVehicle (vm, pw) pos1 5 = Some n1"
    and g1: "getPlayerState c1 pm pw = Some st1"
    by (rule vehicleInReach_SomeD) (simp add: vm_def pw_def pm_def)
  from r2 obtain cd2 st2 pos2 where
    cl2: "Map_get (clients s) w2 = Some cd2" and id2: "clientData.clientId cd2 = c2"
    and g2: "getPlayerState c2 pm pw = Some st2" and nv2: "\<not> inVehicle st2"
    and p2: "ps_position st2 = Some pos2"
    and f2: "findNearestVehicle (vm, pw) pos2 5 = Some n2"
    by (rule vehicleInReach_SomeD) (simp add: vm_def pw_def pm_def)
  from findNearestVehicle_entry[OF f1] d obtain v where
    v: "Map_get (vehicles vm) vid = Some v" and vfree: "vehicle.driverId v = None"
    using free by (auto simp: vm_def vid_def)
  from getPlayerState_player[OF g1] obtain p1 where p1: "Map_get (players pm) (PlayerId c1) = Some p1"
    by blast
  define vm1 where "vm1 = vm\<lparr>vehicles := Map_set vid (v\<lparr>driverId := Some c1, engineRunning := True\<rparr>) (vehicles vm)\<rparr>"
  define pm1 where "pm1 = pm\<lparr>players := Map_set (PlayerId c1) (p1\<lparr>vehicleId := Some vid\<rparr>) (players pm)\<rparr>"
  define pw1 where "pw1 = setEnabled (PlayerId c1) False (setEntityDriver vid (Some c1) pw)"
  define s1 where "s1 = handleVehicleEnter e w1 s"
  have s1: "s1 = broadcast e (VehicleEnter vid c1) None
                   (s\<lparr>vehicleManager := vm1, playerManager := pm1, physicsWorld := pw1\<rparr>)"
    using r1 free v vfree p1
    by (simp add: s1_def handleVehicleEnter_def enterVehicle_def playerEnterVehicle_def Let_def
          vm_def[symmetric] pw_def[symmetric] pm_def[symmetric] vid_def[symmetric]
          vm1_def pm1_def pw1_def)
  have fields: "vehicleManager s1 = vm1" "playerManager s1 = pm1" "physicsWorld s1 = pw1"
    "clients s1 = clients s"
    by (simp_all add: s1 broadcast_fields)
  have v1: "Map_get (vehicles vm1) vid = Some (v\<lparr>driverId := Some c1, engineRunning := True\<rparr>)"
    by (simp add: vm1_def update_conv')
  have keys: "map fst (vehicles vm) = map fst (vehicles vm1)"
    using v by (simp add: vm1_def map_fst_update)
  have g2': "map_option (\<lambda>st. (inVehicle st, ps_position st)) (getPlayerState c2 pm1 pw1)
             = Some (False, Some pos2)"
    using getPlayerState_other[OF ne, where pm = pm and p' = "p1\<lparr>vehicleId := Some vid\<rparr>"
        and en = False and vid = vid and dr = "Some c1" and pw = pw]
      g2 nv2 p2 by (simp add: pm1_def pw1_def)
  then obtain st2' where st2': "getPlayerState c2 pm1 pw1 = Some st2'"
    and nv2': "\<not> inVehicle st2'" and p2': "ps_position st2' = Some pos2"
    by (cases "getPlayerState c2 pm1 pw1") auto
  have "sameNearest (fold (nearerVehicle pw pos2) (vehicles vm) (None, 5))
                    (fold (nearerVehicle pw1 pos2) (vehicles vm1) (None, 5))"
    by (rule fold_nearerVehicle_same)
       (simp_all add: pw1_def sameGeometry_enter sameNearest_def keys)
  then have "map_option n_entityId (findNearestVehicle (vm1, pw1) pos2 5) = Some vid"
    using f2 same by (simp add: findNearestVehicle_def sameNearest_def vid_def)
  then obtain n2' where f2': "findNearestVehicle (vm1, pw1) pos2 5 = Some n2'"
    and id2': "n_entityId n2' = vid"
    by (cases "findNearestVehicle (vm1, pw1) pos2 5") auto
  have "distinct (Map_keys (vehicles vm1))" using d keys by (simp add: vm_def)
  from findNearestVehicle_entry[OF f2' this] v1 id2' have occ: "occupied n2'"
    by auto
  have r2': "vehicleInReach s1 w2 = Some (c2, n2')"
    using cl2 id2 st2' nv2' p2' f2' by (simp add: vehicleInReach_def fields)
  have "handleVehicleEnter e w2 s1 = s1"
    using r2' occ by (simp add: handleVehicleEnter_def)
  then show ?thesis using v1 fields(1) by (simp add: s1_def[symmetric] vid_def[symmetric])
qed

text \<open>
  Claim C6.  The driver slot of a vehicle holds at most one id.  \<open>enterVehicle\<close> succeeds
  exactly when the vehicle exists and its slot is empty; when it fails, vehicle manager and
  physics world are unchanged; after a successful entry a second \<open>enterVehicle\<close> for the
  same vehicle fails and changes nothing.  At the level of the requests: when two
  connections of different clients both have the same free vehicle as their nearest one,
  the first \<open>vehicle_enter\<close> makes its client the driver and the second leaves the
  whole server state as it is (no entry, no change of the player, no broadcast).
\<close>

theorem single_driver_entry:
  "fst (enterVehicle vid p vw)
     = (\<exists>v. Map_get (vehicles (fst vw)) vid = Some v \<and> vehicle.driverId v = None)
   \<and> (\<not> fst (enterVehicle vid p vw) \<longrightarrow> snd (enterVehicle vid p vw) = vw)
   \<and> (fst (enterVehicle vid p vw) \<longrightarrow>
        enterVehicle vid p' (snd (enterVehicle vid p vw)) = (False, snd (enterVehicle vid p vw)))
   \<and> (distinct (Map_keys (vehicles (vehicleManager s))) \<and>
       vehicleInReach s w1 = Some (c1, n1) \<and> vehicleInReach s w2 = Some (c2, n2) \<and>
       n_entityId n1 = n_entityId n2 \<and> c1 \<noteq> c2 \<and> \<not> occupied n1 \<longrightarrow>
        (\<exists>v. Map_get (vehicles (vehicleManager (handleVehicleEnter e w1 s))) (n_entityId n1) = Some v
              \<and> vehicle.driverId v = Some c1)
        \<and> handleVehicleEnter e w2 (handleVehicleEnter e w1 s) = handleVehicleEnter e w1 s)"
  using enterVehicle_success_iff[of vid p vw] enterVehicle_failure[of vid p vw]
    enterVehicle_second[of vid p vw p'] two_enter_requests[of s w1 c1 n1 w2 c2 n2 e]
  by blast

lemma sqrt_less_numeral: "0 \<le> d \<Longrightarrow> (sqrt x < d) = (x < d * d)"
  by (metis abs_of_nonneg real_sqrt_abs2 real_sqrt_less_iff)

lemmas car_eval = carAndTwoPlayers_def oneCar_def spawnVehicle_def createVehicleBody_def
  vehicleBodyLift_def initWheelStates_def newVehicleManager_def newPhysicsWorld_def
  emptyRapierWorld_def createPlayerBody_def createRigidBody_def createCollider_def
  restInput_def Let_def Vec3_def player_height_def demoWalker_def idleInput_def
  vehicleInReach_def getPlayerState_def bodyOf_def findNearestVehicle_def nearerVehicle_def
  getEntityState_def carSeenFrom_def


theorem single_driver_entry_witness:
  "fst (enterVehicle (VehicleId ''v1'') ''c1'' oneCar) \<and>
   enterVehicle (VehicleId ''v1'') ''c2'' (snd (enterVehicle (VehicleId ''v1'') ''c1'' oneCar))
     = (False, snd (enterVehicle (VehicleId ''v1'') ''c1'' oneCar)) \<and>
   distinct (Map_keys (vehicles (vehicleManager carAndTwoPlayers))) \<and>
   vehicleInReach carAndTwoPlayers 1 = Some (''c1'', carSeenFrom 3) \<and>
   vehicleInReach carAndTwoPlayers 2 = Some (''c2'', carSeenFrom 4) \<and>
   n_entityId (carSeenFrom 3) = n_entityId (carSeenFrom 4) \<and>
   ''c1'' \<noteq> ''c2'' \<and> \<not> occupied (carSeenFrom 3) \<and>
   handleVehicleEnter demoEnv 2 (handleVehicleEnter demoEnv 1 carAndTwoPlayers)
     = handleVehicleEnter demoEnv 1 carAndTwoPlayers"
  using single_driver_entry[where vid = "VehicleId ''v1''" and p = "''c1''" and vw = oneCar
      and p' = "''c2''" and s = carAndTwoPlayers and ?w1.0 = 1 and ?c1.0 = "''c1''"
      and ?n1.0 = "carSeenFrom 3" and ?w2.0 = 2 and ?c2.0 = "''c2''" and ?n2.0 = "carSeenFrom 4"
      and e = demoEnv]
  by (simp add: car_eval sqrt_less_numeral enterVehicle_def)

section \<open>Creating a body twice\<close>

lemma createPlayerBody_twice:
  "let w0 = world pw;
       pw1 = createPlayerBody eid p1 o1 pw;
       pw2 = createPlayerBody eid p2 o2 pw1
   in Map_get (bodies pw1) eid = Some (nextHandle w0) \<and>
      Map_get (bodies pw2) eid = Some (nextHandle w0 + 2) \<and>
      length (rigidBodySet (world pw2)) = length (rigidBodySet w0) + 2 \<and>
      (\<exists>b. (nextHandle w0, b) \<in> set (rigidBodySet (world pw2))) \<and>
      (nextHandle w0 + 1, Some (nextHandle w0)) \<in> set (colliderSet (world pw2))"
  by (auto simp: createPlayerBody_def createRigidBody_def createCollider_def Let_def update_conv')

text \<open>
  Claim C9.  \<open>createPlayerBody\<close> neither rejects an id that already has a body nor
  removes the old one: the maps of the wrapper are overwritten and the first body and its
  collider stay in the engine's world, out of reach of \<open>removeEntity\<close>.  A client that
  sends its handshake twice is spawned twice under one id: afterwards the world holds two
  rigid bodies, the wrapper knows only the second (handle 11), the first (handle 9) and
  its collider (handle 10) are still simulated, and they survive the removal of the player.
\<close>

theorem double_handshake_leaks_body:
  "length (rigidBodySet (world (snd (snd spawnedTwice)))) = 2 \<and>
   Map_keys (bodies (snd (snd spawnedTwice))) = [PlayerId ''c1''] \<and>
   Map_get (bodies (snd (snd spawnedTwice))) (PlayerId ''c1'') = Some 11 \<and>
   Map_get (rigidBodySet (world (snd (snd spawnedTwice)))) 9 \<noteq> None \<and>
   Map_get (colliderSet (world (snd (snd spawnedTwice)))) 10 = Some (Some 9) \<and>
   Map_keys (rigidBodySet (world (snd (removePlayer ''c1''
                (fst spawnedTwice, snd (snd spawnedTwice)))))) = [9]"
  by code_simp

section \<open>Chunk streaming\<close>

lemma loadChunk_keeps:
  "Map_has (loadedChunks (fst s)) key \<Longrightarrow> Map_has (loadedChunks (fst (loadChunk tn k s))) key"
  by (auto simp: loadChunk_def Let_def update_conv' split: prod.splits)

lemma loadChunk_queues:
  "unloadQueue (fst (loadChunk tn k s)) = unloadQueue (fst s)"
  "loadQueue (fst (loadChunk tn k s)) = loadQueue (fst s)"
  by (auto simp: loadChunk_def Let_def split: prod.splits)

lemma drainLoadQueue_keeps:
  "Map_has (loadedChunks (fst s)) key \<Longrightarrow>
     Map_has (loadedChunks (fst (snd (drainLoadQueue tn n q s)))) key"
  by (induction tn n q s rule: drainLoadQueue.induct) (auto simp: loadChunk_keeps)

lemma drainLoadQueue_unloadQueue:
  "unloadQueue (fst (snd (drainLoadQueue tn n q s))) = unloadQueue (fst s)"
  by (induction tn n q s rule: drainLoadQueue.induct) (auto simp: loadChunk_queues)

lemma unloadChunk_other:
  "k \<noteq> key \<Longrightarrow> Map_has (loadedChunks (fst s)) key \<Longrightarrow>
     Map_has (loadedChunks (fst (unloadChunk k s))) key"
  by (auto simp: unloadChunk_def Let_def delete_conv' split: prod.splits option.splits)

lemma drainUnloadQueue_keeps:
  "key \<notin> set q \<Longrightarrow> Map_has (loadedChunks (fst s)) key \<Longrightarrow>
     Map_has (loadedChunks (fst (snd (drainUnloadQueue n q s)))) key"
proof (induction n q s rule: drainUnloadQueue.induct)
  case (1 unloaded s)
  then show ?case by simp
next
  case (2 unloaded k queue s)
  from "2.prems" have ne: "k \<noteq> key" and nq: "key \<notin> set queue" by auto
  show ?case
  proof (cases "unloaded < maxChunksPerFrame")
    case False
    then show ?thesis using "2.prems" by simp
  next
    case True
    show ?thesis
    proof (cases "Map_has (loadedChunks (fst s)) k")
      case True
      have "Map_has (loadedChunks (fst (unloadChunk k s))) key"
        using unloadChunk_other[OF ne "2.prems"(2)] .
      from "2.IH"(1)[OF \<open>unloaded < maxChunksPerFrame\<close> True nq this]
      show ?thesis using True \<open>unloaded < maxChunksPerFrame\<close> by simp
    next
      case False
      from "2.IH"(2)[OF \<open>unloaded < maxChunksPerFrame\<close> False nq "2.prems"(2)]
      show ?thesis using False \<open>unloaded < maxChunksPerFrame\<close> by simp
    qed
  qed
qed

lemma queueLoads_fields:
  "loadedChunks (queueLoads req tm) = loadedChunks tm"
  "unloadQueue (queueLoads req tm) = unloadQueue tm"
  unfolding queueLoads_def
  by (rule fold_preserves; simp)+

lemma fold_queueUnload:
  "loadedChunks (fold (queueUnload req) ks tm) = loadedChunks tm
   \<and> set (unloadQueue (fold (queueUnload req) ks tm)) \<subseteq> set (unloadQueue tm) \<union> (set ks - set req)"
proof (induction ks arbitrary: tm)
  case Nil
  then show ?case by simp
next
  case (Cons k ks)
  have a: "loadedChunks (queueUnload req k tm) = loadedChunks tm"
    and b: "set (unloadQueue (queueUnload req k tm)) \<subseteq> set (unloadQueue tm) \<union> ({k} - set req)"
    by (auto simp: queueUnload_def)
  from Cons.IH[of "queueUnload req k tm"] a b show ?case by auto
qed

lemma fold_queueUnloads:
  "loadedChunks (queueUnloads req tm) = loadedChunks tm
   \<and> set (unloadQueue (queueUnloads req tm))
       \<subseteq> set (unloadQueue tm) \<union> (set (Map_keys (loadedChunks tm)) - set req)"
  using fold_queueUnload[of req "Map_keys (loadedChunks tm)" tm] by (simp add: queueUnloads_def)

text \<open>
  What the streaming does guarantee: within one update, a loaded chunk of the current
  required set that is not already waiting in the unload queue stays loaded.
\<close>

lemma required_chunk_survives:
  assumes "key \<in> set (requiredChunks playerPositions)"
    and "key \<notin> set (unloadQueue (fst s))"
    and "Map_has (loadedChunks (fst s)) key"
  shows "Map_has (loadedChunks (fst (updateForPlayers tn playerPositions s))) key"
proof -
  obtain tm pw where s: "s = (tm, pw)" by (cases s)
  define req where "req = requiredChunks playerPositions"
  define tm1 where "tm1 = queueLoads req tm"
  define tm2 where "tm2 = queueUnloads req tm1"
  have l2: "loadedChunks tm2 = loadedChunks tm"
    using fold_queueUnloads[of req tm1]
    by (simp add: tm2_def tm1_def queueLoads_fields)
  have q2: "key \<notin> set (unloadQueue tm2)"
    using fold_queueUnloads[of req tm1] assms(1,2) s
    by (auto simp: tm2_def tm1_def queueLoads_fields req_def)
  define s3 where "s3 = processLoadQueue tn (tm2, pw)"
  have l3: "Map_has (loadedChunks (fst s3)) key"
    using drainLoadQueue_keeps[of "(tm2, pw)" key tn 0 "loadQueue tm2"] assms(3) s l2
    by (simp add: s3_def processLoadQueue_def split_beta)
  have q3: "key \<notin> set (unloadQueue (fst s3))"
    using drainLoadQueue_unloadQueue[of tn 0 "loadQueue tm2" "(tm2, pw)"] q2
    by (simp add: s3_def processLoadQueue_def split_beta)
  have "Map_has (loadedChunks (fst (processUnloadQueue s3))) key"
    using drainUnloadQueue_keeps[OF q3 l3, of 0]
    by (simp add: processUnloadQueue_def split_beta)
  then show ?thesis
    by (simp add: updateForPlayers_def s Let_def req_def tm1_def tm2_def s3_def)
qed

text \<open>
  Claim C2.  An entry of the unload queue is drained whenever its chunk is still loaded;
  whether the chunk is required again is not looked at.  The nine chunks around the
  origin are loaded, one update without tracked positions queues all nine and unloads
  two, and the next update has a player at the origin again: chunk \<open>(-1, 1)\<close> belongs
  to the required set, is still loaded and still queued, and this update unloads it,
  terrain collider included.
\<close>

theorem requeued_chunk_unloaded:
  "(- 1, 1) \<in> set (requiredChunks [(PlayerId ''c1'', 0, 0)]) \<and>
   Map_has (loadedChunks (fst streamAway)) (- 1, 1) \<and>
   (- 1, 1) \<in> set (unloadQueue (fst streamAway)) \<and>
   \<not> Map_has (loadedChunks (fst streamBack)) (- 1, 1) \<and>
   \<not> Map_has (terrainChunks (snd streamBack)) (- 1, 1)"
  by code_simp

section \<open>Spawn points\<close>





section \<open>Reconciliation and remote smoothing on the client\<close>





lemma replayPending_throws:
  "seq (sentInput d) > ack \<Longrightarrow> replayPending h ack (d # ds) c = Inl (TypeError, c)"
  by (simp add: inputProperty_def applyInput_def)







section \<open>The server tick\<close>























end
